theory Spec2Isabelle
  imports Complex_Main "HOL-Library.Char_ord" "HOL-Library.List_Lexorder"
begin

section \<open>Python values\<close>

text \<open>
  A Python \<open>float\<close> is a finite real number, an infinity or NaN. The comparisons below are
  the ones the program makes: an \<open>int\<close> bound against a \<open>float\<close>, and \<open>float > float\<close>
  inside \<open>max\<close>. Every comparison with NaN is false.
\<close>

datatype pyfloat = Finite real | PosInf | NegInf | NaN

fun le_int_float :: "int \<Rightarrow> pyfloat \<Rightarrow> bool" where
  "le_int_float i (Finite r) = (of_int i \<le> r)"
| "le_int_float i PosInf = True"
| "le_int_float i NegInf = False"
| "le_int_float i NaN = False"

fun le_float_int :: "pyfloat \<Rightarrow> int \<Rightarrow> bool" where
  "le_float_int (Finite r) i = (r \<le> of_int i)"
| "le_float_int PosInf i = False"
| "le_float_int NegInf i = True"
| "le_float_int NaN i = False"

fun gt_float :: "pyfloat \<Rightarrow> pyfloat \<Rightarrow> bool" where
  "gt_float NaN b = False"
| "gt_float a NaN = False"
| "gt_float PosInf b = (b \<noteq> PosInf)"
| "gt_float a PosInf = False"
| "gt_float NegInf b = False"
| "gt_float a NegInf = True"
| "gt_float (Finite x) (Finite y) = (x > y)"

datatype exc_class =
    ValueError | TypeError | OverflowError | AttributeError | KeyError | IndexError
  | FileNotFoundError | FileExistsError | BadRequest | GenericException

text \<open>An exception: its class and the text \<open>str(e)\<close> gives.\<close>

datatype exc = Exc exc_class string

fun exc_class_of :: "exc \<Rightarrow> exc_class" where
  "exc_class_of (Exc c m) = c"

fun exc_str :: "exc \<Rightarrow> string" where
  "exc_str (Exc c m) = m"

datatype json =
    JNull | JBool bool | JInt int | JFloat pyfloat | JString string
  | JArray "json list" | JObject "(string \<times> json) list"

text \<open>
  The builtins whose result is not computed here: \<open>repr\<close> of a float (the shortest string that
  reads back), \<open>float\<close> of a string (\<open>None\<close> where Python raises ValueError) and the
  rounding of an \<open>int\<close> to the nearest double.
\<close>

record builtins =
  float_repr :: "pyfloat \<Rightarrow> string"
  str_to_float :: "string \<Rightarrow> pyfloat option"
  int_to_float :: "int \<Rightarrow> real"

definition digit_char :: "nat \<Rightarrow> char" where
  "digit_char d = ''0123456789'' ! d"

fun str_nat :: "nat \<Rightarrow> string" where
  "str_nat n = (if n < 10 then [digit_char n] else str_nat (n div 10) @ [digit_char (n mod 10)])"

declare str_nat.simps [simp del]

definition str_int :: "int \<Rightarrow> string" where
  "str_int i = (if i < 0 then ''-'' @ str_nat (nat (- i)) else str_nat (nat i))"

definition repr_str :: "string \<Rightarrow> string" where
  \<comment> \<open>\<open>repr\<close> of a string without quotes, backslashes or control characters\<close>
  "repr_str s = [CHR 0x27] @ s @ [CHR 0x27]"

fun join :: "string \<Rightarrow> string list \<Rightarrow> string" where
  "join sep [] = []"
| "join sep [x] = x"
| "join sep (x # y # ys) = x @ sep @ join sep (y # ys)"

definition repr_str_list :: "string list \<Rightarrow> string" where
  "repr_str_list xs = ''['' @ join '', '' (map repr_str xs) @ '']''"

section \<open>predict.py: validate_input_parameters\<close>

definition ranges :: "(string \<times> int \<times> int) list" where
  "ranges =
    [(''ph'', 0, 14), (''hardness'', 0, 1000), (''solids'', 0, 100000),
     (''chloramines'', 0, 20), (''sulfate'', 0, 1000), (''conductivity'', 0, 2000),
     (''organic_carbon'', 0, 50), (''trihalomethanes'', 0, 200), (''turbidity'', 0, 20)]"

text \<open>The nine measurements every function of the service takes as positional arguments.\<close>

record sample =
  ph :: pyfloat
  hardness :: pyfloat
  solids :: pyfloat
  chloramines :: pyfloat
  sulfate :: pyfloat
  conductivity :: pyfloat
  organic_carbon :: pyfloat
  trihalomethanes :: pyfloat
  turbidity :: pyfloat

definition params_dict :: "sample \<Rightarrow> (string \<times> pyfloat) list" where
  "params_dict s =
    [(''ph'', ph s), (''hardness'', hardness s), (''solids'', solids s),
     (''chloramines'', chloramines s), (''sulfate'', sulfate s),
     (''conductivity'', conductivity s), (''organic_carbon'', organic_carbon s),
     (''trihalomethanes'', trihalomethanes s), (''turbidity'', turbidity s)]"

definition range_warning :: "builtins \<Rightarrow> string \<Rightarrow> pyfloat \<Rightarrow> int \<Rightarrow> int \<Rightarrow> string" where
  "range_warning rt param_name v min_val max_val =
     param_name @ '' ('' @ float_repr rt v @ '') is outside typical range (''
       @ str_int min_val @ ''-'' @ str_int max_val @ '')''"

text \<open>The loop over \<open>params.items()\<close>; \<open>ranges[param_name]\<close> raises KeyError on a missing key.\<close>

fun validate_loop ::
  "builtins \<Rightarrow> (string \<times> pyfloat) list \<Rightarrow> string list \<Rightarrow> exc + string list" where
  "validate_loop rt [] warnings = Inr warnings"
| "validate_loop rt ((param_name, v) # rest) warnings =
     (case map_of ranges param_name of
        None \<Rightarrow> Inl (Exc KeyError (repr_str param_name))
      | Some (min_val, max_val) \<Rightarrow>
          validate_loop rt rest
            (if \<not> (le_int_float min_val v \<and> le_float_int v max_val)
             then warnings @ [range_warning rt param_name v min_val max_val]
             else warnings))"

definition validate_input_parameters ::
  "builtins \<Rightarrow> sample \<Rightarrow> exc + (bool \<times> string list)" where
  "validate_input_parameters rt s =
     (case validate_loop rt (params_dict s) [] of
        Inl e \<Rightarrow> Inl e
      | Inr warnings \<Rightarrow> Inr (length warnings = 0, warnings))"

section \<open>Sequences, strings and subscripts\<close>

definition index_py :: "'a list \<Rightarrow> nat \<Rightarrow> exc + 'a" where
  \<comment> \<open>\<open>xs[i]\<close> for \<open>i \<ge> 0\<close>\<close>
  "index_py xs i =
     (if i < length xs then Inr (xs ! i) else Inl (Exc IndexError ''index out of range''))"

fun py_max_float :: "pyfloat list \<Rightarrow> exc + pyfloat" where
  \<comment> \<open>\<open>max(xs)\<close>: the first element no later one is greater than\<close>
  "py_max_float [] = Inl (Exc ValueError ''max() arg is an empty sequence'')"
| "py_max_float (x # xs) = Inr (foldl (\<lambda>m y. if gt_float y m then y else m) x xs)"

definition startswith :: "string \<Rightarrow> string \<Rightarrow> bool" where
  "startswith s pre = (take (length pre) s = pre)"

fun is_substring :: "string \<Rightarrow> string \<Rightarrow> bool" where
  "is_substring p [] = (p = [])"
| "is_substring p (c # cs) = (startswith (c # cs) p \<or> is_substring p cs)"

text \<open>
  \<open>s.replace(old, "")\<close>: every occurrence of \<open>old\<close> is removed, scanning from the left
  without overlap. \<open>skip\<close> counts the characters of a found occurrence still to drop.
\<close>

fun remove_from :: "string \<Rightarrow> nat \<Rightarrow> string \<Rightarrow> string" where
  "remove_from old skip [] = []"
| "remove_from old skip (c # cs) =
     (if 0 < skip then remove_from old (skip - 1) cs
      else if old \<noteq> [] \<and> startswith (c # cs) old then remove_from old (length old - 1) cs
      else c # remove_from old 0 cs)"

definition replace_empty :: "string \<Rightarrow> string \<Rightarrow> string" where
  "replace_empty s old = remove_from old 0 s"

fun py_max_str :: "string list \<Rightarrow> exc + string" where
  "py_max_str [] = Inl (Exc ValueError ''max() arg is an empty sequence'')"
| "py_max_str (x # xs) = Inr (foldl (\<lambda>m y. if y > m then y else m) x xs)"

fun type_name_json :: "json \<Rightarrow> string" where
  "type_name_json JNull = ''NoneType''"
| "type_name_json (JBool b) = ''bool''"
| "type_name_json (JInt i) = ''int''"
| "type_name_json (JFloat f) = ''float''"
| "type_name_json (JString s) = ''str''"
| "type_name_json (JArray xs) = ''list''"
| "type_name_json (JObject kvs) = ''dict''"

fun subscript_str :: "json \<Rightarrow> string \<Rightarrow> exc + json" where
  \<comment> \<open>\<open>v[key]\<close> with a string key\<close>
  "subscript_str (JObject kvs) k =
     (case map_of kvs k of None \<Rightarrow> Inl (Exc KeyError (repr_str k)) | Some v \<Rightarrow> Inr v)"
| "subscript_str (JArray xs) k =
     Inl (Exc TypeError ''list indices must be integers or slices, not str'')"
| "subscript_str (JString s) k =
     Inl (Exc TypeError ''string indices must be integers, not 'str' '')"
| "subscript_str v k =
     Inl (Exc TypeError (repr_str (type_name_json v) @ '' object is not subscriptable''))"

fun contains_str :: "json \<Rightarrow> string \<Rightarrow> exc + bool" where
  \<comment> \<open>\<open>key in v\<close> with a string key\<close>
  "contains_str (JObject kvs) k = Inr (k \<in> set (map fst kvs))"
| "contains_str (JArray xs) k = Inr (JString k \<in> set xs)"
| "contains_str (JString s) k = Inr (is_substring k s)"
| "contains_str v k =
     Inl (Exc TypeError (''argument of type '' @ repr_str (type_name_json v) @ '' is not iterable''))"

fun truthy :: "json \<Rightarrow> bool" where
  "truthy JNull = False"
| "truthy (JBool b) = b"
| "truthy (JInt i) = (i \<noteq> 0)"
| "truthy (JFloat f) = (f \<noteq> Finite 0)"
| "truthy (JString s) = (s \<noteq> [])"
| "truthy (JArray xs) = (xs \<noteq> [])"
| "truthy (JObject kvs) = (kvs \<noteq> [])"

text \<open>
  \<open>float(v)\<close>. An \<open>int\<close> whose nearest double would be infinite raises OverflowError,
  which is not a ValueError.
\<close>

fun py_float :: "builtins \<Rightarrow> json \<Rightarrow> exc + pyfloat" where
  "py_float rt (JBool b) = Inr (Finite (if b then 1 else 0))"
| "py_float rt (JInt i) =
     (if \<bar>i\<bar> \<ge> 2 ^ 1024 - 2 ^ 970
      then Inl (Exc OverflowError ''int too large to convert to float'')
      else Inr (Finite (int_to_float rt i)))"
| "py_float rt (JFloat f) = Inr f"
| "py_float rt (JString s) =
     (case str_to_float rt s of
        None \<Rightarrow> Inl (Exc ValueError (''could not convert string to float: '' @ repr_str s))
      | Some f \<Rightarrow> Inr f)"
| "py_float rt v =
     Inl (Exc TypeError (''float() argument must be a string or a real number, not ''
       @ repr_str (type_name_json v)))"

section \<open>Third-party libraries and the file system\<close>

type_synonym matrix = "pyfloat list list"

datatype table = NdArray matrix | DataFrame "json list" matrix

text \<open>
  pandas and scikit-learn are not part of the repository: what their calls return is a
  parameter. \<open>'o\<close> is the type of estimator objects. A classifier without
  \<open>predict_proba\<close> answers that call with an AttributeError.
\<close>

record 'o libs =
  pd_DataFrame :: "matrix \<Rightarrow> json \<Rightarrow> exc + table"
  transform :: "'o \<Rightarrow> table \<Rightarrow> exc + table"
  predict :: "'o \<Rightarrow> table \<Rightarrow> exc + int list"
  predict_proba :: "'o \<Rightarrow> table \<Rightarrow> exc + matrix"
  type_name :: "'o \<Rightarrow> string"

text \<open>
  A file holds a pickled object (\<open>joblib.dump\<close>) or a JSON document (\<open>json.dump\<close>); what
  is read back is what was written. Paths are compared as strings. Of the failures of the
  operating system only a missing file and a file in the place of a directory are modelled:
  \<open>makedirs\<close> records the directory itself and not its parents, and a path that lies
  below a regular file reads as a missing file, where the system raises NotADirectoryError.
\<close>

datatype 'o content = Pickle 'o | Json_file json

record 'o filesystem =
  dirs :: "string list"
  files :: "(string \<times> 'o content) list"

definition path_exists :: "'o filesystem \<Rightarrow> string \<Rightarrow> bool" where
  "path_exists fs p = (p \<in> set (dirs fs) \<or> p \<in> set (map fst (files fs)))"

definition makedirs :: "'o filesystem \<Rightarrow> string \<Rightarrow> exc + 'o filesystem" where
  \<comment> \<open>\<open>os.makedirs(p, exist_ok=True)\<close>\<close>
  "makedirs fs p =
     (if p \<in> set (dirs fs) then Inr fs
      else if p \<in> set (map fst (files fs))
      then Inl (Exc FileExistsError (''[Errno 17] File exists: '' @ repr_str p))
      else Inr (fs\<lparr>dirs := p # dirs fs\<rparr>))"

definition write_file :: "'o filesystem \<Rightarrow> string \<Rightarrow> 'o content \<Rightarrow> 'o filesystem" where
  "write_file fs p c = fs\<lparr>files := (p, c) # filter (\<lambda>e. fst e \<noteq> p) (files fs)\<rparr>"

definition no_such_file :: "string \<Rightarrow> exc" where
  "no_such_file p = Exc FileNotFoundError (''[Errno 2] No such file or directory: '' @ repr_str p)"

definition joblib_load :: "'o filesystem \<Rightarrow> string \<Rightarrow> exc + 'o" where
  "joblib_load fs p =
     (case map_of (files fs) p of
        None \<Rightarrow> Inl (no_such_file p)
      | Some (Pickle ob) \<Rightarrow> Inr ob
      | Some (Json_file j) \<Rightarrow> Inl (Exc GenericException ''invalid load key''))"

definition json_load :: "'o filesystem \<Rightarrow> string \<Rightarrow> exc + json" where
  \<comment> \<open>\<open>with open(p, 'r') as f: json.load(f)\<close>\<close>
  "json_load fs p =
     (case map_of (files fs) p of
        None \<Rightarrow> Inl (no_such_file p)
      | Some (Json_file j) \<Rightarrow> Inr j
      | Some (Pickle ob) \<Rightarrow> Inl (Exc ValueError ''Expecting value: line 1 column 1 (char 0)''))"

definition entry_name :: "string \<Rightarrow> string \<Rightarrow> string option" where
  \<comment> \<open>the name under which path \<open>p\<close> is listed in directory \<open>d\<close>, if it lies directly in it\<close>
  "entry_name d p =
     (let pre = d @ ''/''; n = drop (length pre) p
      in if startswith p pre \<and> n \<noteq> [] \<and> CHR ''/'' \<notin> set n then Some n else None)"

definition listdir :: "'o filesystem \<Rightarrow> string \<Rightarrow> exc + string list" where
  "listdir fs d =
     (if d \<in> set (dirs fs)
      then Inr (List.map_filter (entry_name d) (map fst (files fs) @ dirs fs))
      else if d \<in> set (map fst (files fs))
      then Inl (Exc GenericException (''[Errno 20] Not a directory: '' @ repr_str d))
      else Inl (no_such_file d))"

record datetime =
  year :: nat
  month :: nat
  day :: nat
  hour :: nat
  minute :: nat
  second :: nat

definition pad2 :: "nat \<Rightarrow> string" where
  "pad2 n = (if n < 10 then ''0'' @ str_nat n else str_nat n)"

definition strftime_stamp :: "datetime \<Rightarrow> string" where
  \<comment> \<open>\<open>strftime("%Y%m%d_%H%M%S")\<close>; \<open>%Y\<close> is the year in decimal, four digits from 1000 on\<close>
  "strftime_stamp d =
     str_nat (year d) @ pad2 (month d) @ pad2 (day d) @ ''_''
       @ pad2 (hour d) @ pad2 (minute d) @ pad2 (second d)"

section \<open>download.py\<close>

text \<open>One entry of the \<open>results\<close> dictionary the training script builds.\<close>

record 'o result_entry =
  res_model :: 'o
  res_accuracy :: pyfloat
  res_predictions :: "int list"

record saved_files =
  model_file :: string
  scaler_file :: string
  imputer_file :: string
  metadata_file :: string
  results_file :: string

definition model_filename_of :: "string \<Rightarrow> string \<Rightarrow> string" where
  "model_filename_of model_dir timestamp = model_dir @ ''/water_quality_model_'' @ timestamp @ ''.pkl''"

definition scaler_filename_of :: "string \<Rightarrow> string \<Rightarrow> string" where
  "scaler_filename_of model_dir timestamp = model_dir @ ''/scaler_'' @ timestamp @ ''.pkl''"

definition imputer_filename_of :: "string \<Rightarrow> string \<Rightarrow> string" where
  "imputer_filename_of model_dir timestamp = model_dir @ ''/imputer_'' @ timestamp @ ''.pkl''"

definition metadata_filename_of :: "string \<Rightarrow> string \<Rightarrow> string" where
  "metadata_filename_of model_dir timestamp = model_dir @ ''/model_metadata_'' @ timestamp @ ''.json''"

definition results_filename_of :: "string \<Rightarrow> string \<Rightarrow> string" where
  "results_filename_of model_dir timestamp =
     model_dir @ ''/all_models_comparison_'' @ timestamp @ ''.json''"

definition metadata_json ::
  "'o libs \<Rightarrow> string \<Rightarrow> 'o result_entry \<Rightarrow> string list \<Rightarrow> string \<Rightarrow> string \<Rightarrow> json" where
  "metadata_json lb best_model_name best feature_names model_dir timestamp =
     JObject
      [(''model_name'', JString best_model_name),
       (''model_type'', JString (type_name lb (res_model best))),
       (''accuracy'', JFloat (res_accuracy best)),
       (''feature_names'', JArray (map JString feature_names)),
       (''training_date'', JString timestamp),
       (''model_file'', JString (model_filename_of model_dir timestamp)),
       (''scaler_file'', JString (scaler_filename_of model_dir timestamp)),
       (''imputer_file'', JString (imputer_filename_of model_dir timestamp)),
       (''preprocessing_steps'',
          JArray [JString ''SimpleImputer with mean strategy'',
                  JString ''StandardScaler normalization''])]"

definition all_results_json :: "'o libs \<Rightarrow> (string \<times> 'o result_entry) list \<Rightarrow> json" where
  "all_results_json lb results =
     JObject (map (\<lambda>(name, r).
        (name, JObject [(''accuracy'', JFloat (res_accuracy r)),
                        (''model_type'', JString (type_name lb (res_model r)))])) results)"

text \<open>
  \<open>save_trained_model\<close>. \<open>now\<close> is what \<open>datetime.now()\<close> returns. The file system is
  returned as the call leaves it, also when it raises.
\<close>

definition save_trained_model ::
  "'o libs \<Rightarrow> 'o filesystem \<Rightarrow> datetime \<Rightarrow> (string \<times> 'o result_entry) list \<Rightarrow> string
     \<Rightarrow> 'o \<Rightarrow> 'o \<Rightarrow> string list \<Rightarrow> string \<Rightarrow> (exc + saved_files) \<times> 'o filesystem" where
  "save_trained_model lb fs now results best_model_name scaler imputer feature_names model_dir =
     (case makedirs fs model_dir of
        Inl e \<Rightarrow> (Inl e, fs)
      | Inr fs0 \<Rightarrow>
         (let timestamp = strftime_stamp now in
          case map_of results best_model_name of
            None \<Rightarrow> (Inl (Exc KeyError (repr_str best_model_name)), fs0)
          | Some best \<Rightarrow>
             (let fs1 = write_file fs0 (model_filename_of model_dir timestamp)
                          (Pickle (res_model best));
                  fs2 = write_file fs1 (scaler_filename_of model_dir timestamp) (Pickle scaler);
                  fs3 = write_file fs2 (imputer_filename_of model_dir timestamp) (Pickle imputer);
                  fs4 = write_file fs3 (metadata_filename_of model_dir timestamp)
                          (Json_file (metadata_json lb best_model_name best feature_names
                             model_dir timestamp));
                  fs5 = write_file fs4 (results_filename_of model_dir timestamp)
                          (Json_file (all_results_json lb results))
              in (Inr \<lparr>model_file = model_filename_of model_dir timestamp,
                        scaler_file = scaler_filename_of model_dir timestamp,
                        imputer_file = imputer_filename_of model_dir timestamp,
                        metadata_file = metadata_filename_of model_dir timestamp,
                        results_file = results_filename_of model_dir timestamp\<rparr>, fs5))))"

text \<open>The dictionary \<open>load_trained_model\<close> returns.\<close>

record 'o components =
  mc_model :: 'o
  mc_scaler :: 'o
  mc_imputer :: 'o
  mc_metadata :: json

definition extract_timestamp :: "string \<Rightarrow> string" where
  "extract_timestamp f = replace_empty (replace_empty f ''water_quality_model_'') ''.pkl''"

definition latest_timestamp :: "'o filesystem \<Rightarrow> string \<Rightarrow> exc + string" where
  \<comment> \<open>the branch \<open>if timestamp is None\<close>\<close>
  "latest_timestamp fs model_dir =
     (case listdir fs model_dir of
        Inl e \<Rightarrow> Inl e
      | Inr names \<Rightarrow>
         (let model_files = filter (\<lambda>f. startswith f ''water_quality_model_'') names in
          if model_files = [] then Inl (Exc FileNotFoundError ''No saved models found'')
          else py_max_str (map extract_timestamp model_files)))"

definition load_components :: "'o filesystem \<Rightarrow> string \<Rightarrow> string \<Rightarrow> exc + 'o components" where
  \<comment> \<open>the body of the \<open>try\<close>\<close>
  "load_components fs model_dir timestamp =
     (case joblib_load fs (model_filename_of model_dir timestamp) of
        Inl e \<Rightarrow> Inl e
      | Inr m \<Rightarrow>
     (case joblib_load fs (scaler_filename_of model_dir timestamp) of
        Inl e \<Rightarrow> Inl e
      | Inr sc \<Rightarrow>
     (case joblib_load fs (imputer_filename_of model_dir timestamp) of
        Inl e \<Rightarrow> Inl e
      | Inr im \<Rightarrow>
     (case json_load fs (metadata_filename_of model_dir timestamp) of
        Inl e \<Rightarrow> Inl e
      | Inr md \<Rightarrow>
          Inr \<lparr>mc_model = m, mc_scaler = sc, mc_imputer = im, mc_metadata = md\<rparr>))))"

definition load_trained_model ::
  "'o filesystem \<Rightarrow> string \<Rightarrow> string option \<Rightarrow> exc + 'o components" where
  "load_trained_model fs model_dir timestamp =
     (if \<not> path_exists fs model_dir
      then Inl (Exc FileNotFoundError (''Model directory '' @ repr_str model_dir @ '' not found''))
      else
       (case (case timestamp of Some t \<Rightarrow> Inr t | None \<Rightarrow> latest_timestamp fs model_dir) of
          Inl e \<Rightarrow> Inl e
        | Inr t \<Rightarrow>
           (case load_components fs model_dir t of
              Inl e \<Rightarrow>
                (if exc_class_of e = FileNotFoundError
                 then Inl (Exc FileNotFoundError (''Required model file not found: '' @ exc_str e))
                 else Inl (Exc GenericException (''Error loading model: '' @ exc_str e)))
            | Inr mc \<Rightarrow> Inr mc)))"

text \<open>
  What the service calls, in the order it calls it: a trace is threaded through every
  function that reaches a library or is named in a claim, and each call site appends its
  event before the call.
\<close>

datatype 'o event =
    Ev_get_json
  | Ev_validate sample
  | Ev_predictWaterQuality sample
  | Ev_get_water_quality_prediction sample
  | Ev_transform 'o table
  | Ev_predict 'o table
  | Ev_predict_proba 'o table

definition input_row :: "sample \<Rightarrow> pyfloat list" where
  "input_row s = [ph s, hardness s, solids s, chloramines s, sulfate s,
                  conductivity s, organic_carbon s, trihalomethanes s, turbidity s]"

definition first_results ::
  "int list \<Rightarrow> matrix option \<Rightarrow> exc + (int \<times> pyfloat list option)" where
  \<comment> \<open>\<open>prediction[0], probability[0]\<close>, or \<open>prediction[0], None\<close>\<close>
  "first_results prediction probability =
     (case index_py prediction 0 of
        Inl e \<Rightarrow> Inl e
      | Inr p \<Rightarrow>
         (case probability of
            None \<Rightarrow> Inr (p, None)
          | Some pm \<Rightarrow>
             (case index_py pm 0 of Inl e \<Rightarrow> Inl e | Inr row \<Rightarrow> Inr (p, Some row))))"

definition predict_with_saved_model ::
  "'o libs \<Rightarrow> 'o components \<Rightarrow> sample \<Rightarrow> 'o event list
     \<Rightarrow> (exc + (int \<times> pyfloat list option)) \<times> 'o event list" where
  "predict_with_saved_model lb model_components s tr =
     (case subscript_str (mc_metadata model_components) ''feature_names'' of
        Inl e \<Rightarrow> (Inl e, tr)
      | Inr feature_names \<Rightarrow>
     (case pd_DataFrame lb [input_row s] feature_names of
        Inl e \<Rightarrow> (Inl e, tr)
      | Inr input_df \<Rightarrow>
     (let tr1 = tr @ [Ev_transform (mc_imputer model_components) input_df] in
      case transform lb (mc_imputer model_components) input_df of
        Inl e \<Rightarrow> (Inl e, tr1)
      | Inr input_imputed \<Rightarrow>
     (let tr2 = tr1 @ [Ev_transform (mc_scaler model_components) input_imputed] in
      case transform lb (mc_scaler model_components) input_imputed of
        Inl e \<Rightarrow> (Inl e, tr2)
      | Inr input_scaled \<Rightarrow>
     (let tr3 = tr2 @ [Ev_predict (mc_model model_components) input_scaled] in
      case predict lb (mc_model model_components) input_scaled of
        Inl e \<Rightarrow> (Inl e, tr3)
      | Inr prediction \<Rightarrow>
     (let tr4 = tr3 @ [Ev_predict_proba (mc_model model_components) input_scaled] in
      case predict_proba lb (mc_model model_components) input_scaled of
        Inl e \<Rightarrow>
          (if exc_class_of e = AttributeError then (first_results prediction None, tr4)
           else (Inl e, tr4))
      | Inr probability \<Rightarrow> (first_results prediction (Some probability), tr4)))))))"

section \<open>predict.py\<close>

text \<open>
  The two module globals: \<open>model_loaded\<close> of main.py and \<open>_model_components\<close> of
  predict.py (\<open>None\<close> until a load succeeds).
\<close>

record 'o server =
  model_loaded :: bool
  model_components :: "'o components option"

definition load_model :: "'o filesystem \<Rightarrow> 'o server \<Rightarrow> (exc + 'o components) \<times> 'o server" where
  "load_model fs st =
     (case model_components st of
        Some mc \<Rightarrow> (Inr mc, st)
      | None \<Rightarrow>
         (case load_trained_model fs ''saved_models'' None of
            Inl e \<Rightarrow> (Inl e, st)
          | Inr mc \<Rightarrow> (Inr mc, st\<lparr>model_components := Some mc\<rparr>)))"

definition predictWaterQuality ::
  "'o libs \<Rightarrow> 'o filesystem \<Rightarrow> 'o server \<Rightarrow> sample \<Rightarrow> 'o event list
     \<Rightarrow> (exc + (int \<times> pyfloat list option)) \<times> 'o server \<times> 'o event list" where
  "predictWaterQuality lb fs st s tr =
     (case load_model fs st of
        (Inl e, st') \<Rightarrow> (Inl e, st', tr)
      | (Inr mc, st') \<Rightarrow>
         (case predict_with_saved_model lb mc s tr of (r, tr') \<Rightarrow> (r, st', tr')))"

record wq_result =
  r_prediction :: int
  r_is_safe_to_drink :: bool
  r_safety_status :: string
  r_confidence :: "pyfloat option"
  r_probability_safe :: "pyfloat option"
  r_probability_not_safe :: "pyfloat option"
  r_input_parameters :: "sample option"

definition safety_status_of :: "bool \<Rightarrow> string" where
  \<comment> \<open>\<open>'Safe to drink' if c else 'Not safe to drink'\<close>\<close>
  "safety_status_of c = (if c then ''Safe to drink'' else ''Not safe to drink'')"

definition confidence_of :: "pyfloat list option \<Rightarrow> exc + pyfloat option" where
  \<comment> \<open>\<open>max(probability) if probability is not None else None\<close>\<close>
  "confidence_of probability =
     (case probability of
        None \<Rightarrow> Inr None
      | Some row \<Rightarrow> (case py_max_float row of Inl e \<Rightarrow> Inl e | Inr m \<Rightarrow> Inr (Some m)))"

definition probability_at :: "pyfloat list option \<Rightarrow> nat \<Rightarrow> exc + pyfloat option" where
  \<comment> \<open>\<open>probability[i] if probability is not None else None\<close>\<close>
  "probability_at probability i =
     (case probability of
        None \<Rightarrow> Inr None
      | Some row \<Rightarrow> (case index_py row i of Inl e \<Rightarrow> Inl e | Inr x \<Rightarrow> Inr (Some x)))"

definition get_water_quality_prediction ::
  "'o libs \<Rightarrow> 'o filesystem \<Rightarrow> 'o server \<Rightarrow> sample \<Rightarrow> bool \<Rightarrow> 'o event list
     \<Rightarrow> (exc + wq_result) \<times> 'o server \<times> 'o event list" where
  "get_water_quality_prediction lb fs st s return_details tr =
     (case predictWaterQuality lb fs st s (tr @ [Ev_predictWaterQuality s]) of
        (Inl e, st', tr') \<Rightarrow> (Inl e, st', tr')
      | (Inr (prediction, probability), st', tr') \<Rightarrow>
         (let is_safe = (prediction = 1) in
          case confidence_of probability of
            Inl e \<Rightarrow> (Inl e, st', tr')
          | Inr confidence \<Rightarrow>
         (case probability_at probability 1 of
            Inl e \<Rightarrow> (Inl e, st', tr')
          | Inr p_safe \<Rightarrow>
         (case probability_at probability 0 of
            Inl e \<Rightarrow> (Inl e, st', tr')
          | Inr p_not_safe \<Rightarrow>
             (Inr \<lparr>r_prediction = prediction,
                   r_is_safe_to_drink = is_safe,
                   r_safety_status = safety_status_of is_safe,
                   r_confidence = confidence,
                   r_probability_safe = p_safe,
                   r_probability_not_safe = p_not_safe,
                   r_input_parameters = (if return_details then Some s else None)\<rparr>,
              st', tr')))))"

section \<open>main.py\<close>

definition initialize_model :: "'o filesystem \<Rightarrow> 'o server \<Rightarrow> 'o server" where
  "initialize_model fs st =
     (case load_model fs st of
        (Inr mc, st') \<Rightarrow> st'\<lparr>model_loaded := True\<rparr>
      | (Inl e, st') \<Rightarrow> st'\<lparr>model_loaded := False\<rparr>)"

record probability_scores =
  not_safe :: "pyfloat option"
  safe :: "pyfloat option"

record prediction_obj =
  raw_prediction :: int
  is_safe_to_drink :: bool
  safety_status :: string
  confidence :: "pyfloat option"
  probability_scores :: probability_scores

record validation_obj =
  is_valid :: bool
  warnings :: "string list"

record metadata_obj =
  timestamp :: string
  model_version :: string

record prediction_response =
  prediction :: prediction_obj
  input_parameters :: sample
  validation :: validation_obj
  metadata :: metadata_obj

text \<open>
  A response: the status code and the JSON body, which is the prediction document or an
  error document (\<open>error\<close>, \<open>message\<close> and, for missing parameters,
  \<open>required_parameters\<close>).
\<close>

datatype body = Prediction prediction_response | Error string string "string list option"

type_synonym response = "nat \<times> body"

definition required_params :: "string list" where
  "required_params =
     [''ph'', ''hardness'', ''solids'', ''chloramines'', ''sulfate'',
      ''conductivity'', ''organic_carbon'', ''trihalomethanes'', ''turbidity'']"

fun missing_of :: "json \<Rightarrow> string list \<Rightarrow> exc + string list" where
  \<comment> \<open>\<open>[param for param in params if param not in data]\<close>\<close>
  "missing_of data [] = Inr []"
| "missing_of data (param # rest) =
     (case contains_str data param of
        Inl e \<Rightarrow> Inl e
      | Inr present \<Rightarrow>
         (case missing_of data rest of
            Inl e \<Rightarrow> Inl e
          | Inr ms \<Rightarrow> Inr (if \<not> present then param # ms else ms)))"

definition float_of_key :: "builtins \<Rightarrow> json \<Rightarrow> string \<Rightarrow> exc + pyfloat" where
  \<comment> \<open>\<open>float(data[key])\<close>\<close>
  "float_of_key rt data k =
     (case subscript_str data k of Inl e \<Rightarrow> Inl e | Inr v \<Rightarrow> py_float rt v)"

definition extract_sample :: "builtins \<Rightarrow> json \<Rightarrow> exc + sample" where
  \<comment> \<open>the nine conversions, in the order of the source\<close>
  "extract_sample rt data =
     (case float_of_key rt data ''ph'' of Inl e \<Rightarrow> Inl e | Inr v1 \<Rightarrow>
     (case float_of_key rt data ''hardness'' of Inl e \<Rightarrow> Inl e | Inr v2 \<Rightarrow>
     (case float_of_key rt data ''solids'' of Inl e \<Rightarrow> Inl e | Inr v3 \<Rightarrow>
     (case float_of_key rt data ''chloramines'' of Inl e \<Rightarrow> Inl e | Inr v4 \<Rightarrow>
     (case float_of_key rt data ''sulfate'' of Inl e \<Rightarrow> Inl e | Inr v5 \<Rightarrow>
     (case float_of_key rt data ''conductivity'' of Inl e \<Rightarrow> Inl e | Inr v6 \<Rightarrow>
     (case float_of_key rt data ''organic_carbon'' of Inl e \<Rightarrow> Inl e | Inr v7 \<Rightarrow>
     (case float_of_key rt data ''trihalomethanes'' of Inl e \<Rightarrow> Inl e | Inr v8 \<Rightarrow>
     (case float_of_key rt data ''turbidity'' of Inl e \<Rightarrow> Inl e | Inr v9 \<Rightarrow>
        Inr \<lparr>ph = v1, hardness = v2, solids = v3, chloramines = v4, sulfate = v5,
             conductivity = v6, organic_carbon = v7, trihalomethanes = v8,
             turbidity = v9\<rparr>)))))))))"

definition prediction_failed :: "exc \<Rightarrow> response" where
  \<comment> \<open>the outer \<open>except Exception\<close>\<close>
  "prediction_failed e = (500, Error ''Prediction failed'' (exc_str e) None)"

definition build_prediction :: "int \<Rightarrow> pyfloat list option \<Rightarrow> exc + prediction_obj" where
  \<comment> \<open>the \<open>"prediction"\<close> entry of the response, its values computed in the order written\<close>
  "build_prediction p probability =
     (case confidence_of probability of Inl e \<Rightarrow> Inl e | Inr c \<Rightarrow>
     (case probability_at probability 0 of Inl e \<Rightarrow> Inl e | Inr p0 \<Rightarrow>
     (case probability_at probability 1 of Inl e \<Rightarrow> Inl e | Inr p1 \<Rightarrow>
        Inr \<lparr>raw_prediction = p,
             is_safe_to_drink = (p = 1),
             safety_status = safety_status_of (p = 1),
             confidence = c,
             probability_scores = \<lparr>not_safe = p0, safe = p1\<rparr>\<rparr>)))"

definition log_confidence :: "pyfloat list option \<Rightarrow> exc + unit" where
  \<comment> \<open>the f-string of the last \<open>logger.info\<close>: \<open>max(probability)\<close> with no test for \<open>None\<close>\<close>
  "log_confidence probability =
     (case probability of
        None \<Rightarrow> Inl (Exc TypeError (repr_str ''NoneType'' @ '' object is not iterable''))
      | Some row \<Rightarrow> (case py_max_float row of Inl e \<Rightarrow> Inl e | Inr m \<Rightarrow> Inr ()))"

text \<open>
  The handler of \<open>POST /api/predict\<close>. \<open>req\<close> is what \<open>request.get_json()\<close> returns or
  raises, \<open>now_iso\<close> is \<open>datetime.now().isoformat()\<close>.
\<close>

definition predict_water_quality ::
  "'o libs \<Rightarrow> builtins \<Rightarrow> 'o filesystem \<Rightarrow> string \<Rightarrow> 'o server \<Rightarrow> exc + json
     \<Rightarrow> response \<times> 'o server \<times> 'o event list" where
  "predict_water_quality lb rt fs now_iso st req =
     (if \<not> model_loaded st
      then ((503, Error ''Model not loaded''
               ''The prediction model is not available. Please check server logs.'' None),
            st, [])
      else
       (case req of
          Inl e \<Rightarrow> (prediction_failed e, st, [Ev_get_json])
        | Inr data \<Rightarrow>
       (if \<not> truthy data
        then ((400, Error ''No input data''
                 ''Please provide JSON data with water quality parameters'' None),
              st, [Ev_get_json])
        else
       (case missing_of data required_params of
          Inl e \<Rightarrow> (prediction_failed e, st, [Ev_get_json])
        | Inr missing_params \<Rightarrow>
       (if missing_params \<noteq> []
        then ((400, Error ''Missing parameters''
                 (''Missing required parameters: '' @ repr_str_list missing_params)
                 (Some required_params)),
              st, [Ev_get_json])
        else
       (case extract_sample rt data of
          Inl e \<Rightarrow>
            (if exc_class_of e = ValueError \<or> exc_class_of e = TypeError
             then ((400, Error ''Invalid parameter values''
                      ''All parameters must be numeric values'' None),
                   st, [Ev_get_json])
             else (prediction_failed e, st, [Ev_get_json]))
        | Inr s \<Rightarrow>
       (case validate_input_parameters rt s of
          Inl e \<Rightarrow> (prediction_failed e, st, [Ev_get_json, Ev_validate s])
        | Inr (valid, ws) \<Rightarrow>
       (case predictWaterQuality lb fs st s
               [Ev_get_json, Ev_validate s, Ev_predictWaterQuality s] of
          (Inl e, st1, tr1) \<Rightarrow> (prediction_failed e, st1, tr1)
        | (Inr (p, probability), st1, tr1) \<Rightarrow>
       (case get_water_quality_prediction lb fs st1 s True
               (tr1 @ [Ev_get_water_quality_prediction s]) of
          (Inl e, st2, tr2) \<Rightarrow> (prediction_failed e, st2, tr2)
        | (Inr detailed_result, st2, tr2) \<Rightarrow>
       (case build_prediction p probability of
          Inl e \<Rightarrow> (prediction_failed e, st2, tr2)
        | Inr pobj \<Rightarrow>
       (case log_confidence probability of
          Inl e \<Rightarrow> (prediction_failed e, st2, tr2)
        | Inr u \<Rightarrow>
           ((200, Prediction
               \<lparr>prediction = pobj,
                input_parameters = s,
                validation = \<lparr>is_valid = valid, warnings = (if ws \<noteq> [] then ws else [])\<rparr>,
                metadata = \<lparr>timestamp = now_iso, model_version = ''1.0.0''\<rparr>\<rparr>),
            st2, tr2))))))))))))"

section \<open>train.py\<close>

text \<open>
  The script runs top to bottom. What it reads from the data set and what scikit-learn
  computes from it are given: the estimator each constructor call builds, \<open>fit\<close> (which
  returns the fitted estimator), the scaled test set and its labels, \<open>accuracy_score\<close>
  (the fraction of test labels predicted right), the fitted scaler and imputer, the column
  names and the clock.
\<close>

record 'o run =
  construct :: "string \<Rightarrow> 'o"
  fit :: "'o \<Rightarrow> exc + 'o"
  X_test_scaled :: table
  y_test :: "int list"
  accuracy_score :: "int list \<Rightarrow> int list \<Rightarrow> exc + real"
  run_scaler :: 'o
  run_imputer :: 'o
  X_columns :: "string list"
  run_now :: datetime

definition model_names :: "string list" where
  "model_names =
     [''Random Forest'', ''Extra Trees'', ''Logistic Regression'', ''SVM'',
      ''K-Neighbors'', ''Naive Bayes'', ''Decision Tree'']"

definition models :: "'o run \<Rightarrow> (string \<times> 'o) list" where
  "models rn = map (\<lambda>name. (name, construct rn name)) model_names"

fun train_loop ::
  "'o libs \<Rightarrow> 'o run \<Rightarrow> (string \<times> 'o) list \<Rightarrow> (string \<times> 'o result_entry) list
     \<Rightarrow> exc + (string \<times> 'o result_entry) list" where
  \<comment> \<open>\<open>for name, model in models.items()\<close>; the names are distinct, so each
      \<open>results[name] = ...\<close> adds an entry at the end\<close>
  "train_loop lb rn [] results = Inr results"
| "train_loop lb rn ((name, m) # rest) results =
     (case fit rn m of Inl e \<Rightarrow> Inl e | Inr fitted \<Rightarrow>
     (case predict lb fitted (X_test_scaled rn) of Inl e \<Rightarrow> Inl e | Inr y_pred \<Rightarrow>
     (case accuracy_score rn (y_test rn) y_pred of Inl e \<Rightarrow> Inl e | Inr accuracy \<Rightarrow>
        train_loop lb rn rest
          (results @ [(name, \<lparr>res_model = fitted, res_accuracy = Finite accuracy,
                               res_predictions = y_pred\<rparr>)]))))"

definition accuracy_key :: "(string \<times> 'o result_entry) list \<Rightarrow> string \<Rightarrow> exc + pyfloat" where
  \<comment> \<open>\<open>lambda k: results[k]['accuracy']\<close>\<close>
  "accuracy_key results k =
     (case map_of results k of
        None \<Rightarrow> Inl (Exc KeyError (repr_str k))
      | Some r \<Rightarrow> Inr (res_accuracy r))"

fun max_key_loop :: "('a \<Rightarrow> exc + pyfloat) \<Rightarrow> 'a list \<Rightarrow> 'a \<Rightarrow> pyfloat \<Rightarrow> exc + 'a" where
  "max_key_loop key [] m km = Inr m"
| "max_key_loop key (y # ys) m km =
     (case key y of
        Inl e \<Rightarrow> Inl e
      | Inr ky \<Rightarrow> if gt_float ky km then max_key_loop key ys y ky else max_key_loop key ys m km)"

fun py_max_key :: "('a \<Rightarrow> exc + pyfloat) \<Rightarrow> 'a list \<Rightarrow> exc + 'a" where
  \<comment> \<open>\<open>max(xs, key=key)\<close>: the first element whose key no later key is greater than\<close>
  "py_max_key key [] = Inl (Exc ValueError ''max() arg is an empty sequence'')"
| "py_max_key key (x # xs) =
     (case key x of Inl e \<Rightarrow> Inl e | Inr kx \<Rightarrow> max_key_loop key xs x kx)"

definition example_sample :: sample where
  "example_sample =
     \<lparr>ph = Finite 7, hardness = Finite 200, solids = Finite 20000, chloramines = Finite 7,
      sulfate = Finite 300, conductivity = Finite 400, organic_carbon = Finite 15,
      trihalomethanes = Finite 70, turbidity = Finite 4\<rparr>"

definition train_predict_water_quality ::
  "'o libs \<Rightarrow> 'o \<Rightarrow> 'o \<Rightarrow> sample \<Rightarrow> exc + (int \<times> pyfloat list)" where
  \<comment> \<open>\<open>predict_water_quality\<close> of train.py: no imputer, and \<open>predict_proba\<close> outside any
      \<open>try\<close>\<close>
  "train_predict_water_quality lb scaler best_model s =
     (case transform lb scaler (NdArray [input_row s]) of Inl e \<Rightarrow> Inl e | Inr input_scaled \<Rightarrow>
     (case predict lb best_model input_scaled of Inl e \<Rightarrow> Inl e | Inr predicted \<Rightarrow>
     (case predict_proba lb best_model input_scaled of Inl e \<Rightarrow> Inl e | Inr probability \<Rightarrow>
     (case index_py predicted 0 of Inl e \<Rightarrow> Inl e | Inr p \<Rightarrow>
     (case index_py probability 0 of Inl e \<Rightarrow> Inl e | Inr row \<Rightarrow> Inr (p, row))))))"

text \<open>
  The script from the training loop on. It returns the best model's name, the results and
  the files written, or the exception that ended it. The printing, the confusion matrix
  and the table of feature importances in between leave every variable used later as it
  is; they are not part of the model.
\<close>

definition train_script ::
  "'o libs \<Rightarrow> 'o run \<Rightarrow> 'o filesystem
     \<Rightarrow> (exc + (string \<times> (string \<times> 'o result_entry) list \<times> saved_files)) \<times> 'o filesystem" where
  "train_script lb rn fs =
     (case train_loop lb rn (models rn) [] of
        Inl e \<Rightarrow> (Inl e, fs)
      | Inr results \<Rightarrow>
     (case py_max_key (accuracy_key results) (map fst results) of
        Inl e \<Rightarrow> (Inl e, fs)
      | Inr best_model_name \<Rightarrow>
     (case map_of results best_model_name of
        None \<Rightarrow> (Inl (Exc KeyError (repr_str best_model_name)), fs)
      | Some best \<Rightarrow>
     (case train_predict_water_quality lb (run_scaler rn) (res_model best) example_sample of
        Inl e \<Rightarrow> (Inl e, fs)
      | Inr (p, probability) \<Rightarrow>
     (case py_max_float probability of
        Inl e \<Rightarrow> (Inl e, fs)
      | Inr c \<Rightarrow>
     (case save_trained_model lb fs (run_now rn) results best_model_name
             (run_scaler rn) (run_imputer rn) (X_columns rn) ''saved_models'' of
        (Inl e, fs') \<Rightarrow> (Inl e, fs')
      | (Inr saved, fs') \<Rightarrow> (Inr (best_model_name, results, saved), fs')))))))"

section \<open>What the properties are stated with\<close>

text \<open>
  A value lies within an inclusive range when it is a number between the bounds; an
  infinity and NaN lie in no range.
\<close>

definition in_range :: "pyfloat \<Rightarrow> real \<Rightarrow> real \<Rightarrow> bool" where
  "in_range v lo hi = (case v of Finite r \<Rightarrow> lo \<le> r \<and> r \<le> hi | _ \<Rightarrow> False)"

definition all_in_range :: "sample \<Rightarrow> bool" where
  "all_in_range s =
     (in_range (ph s) 0 14 \<and> in_range (hardness s) 0 1000 \<and> in_range (solids s) 0 100000 \<and>
      in_range (chloramines s) 0 20 \<and> in_range (sulfate s) 0 1000 \<and>
      in_range (conductivity s) 0 2000 \<and> in_range (organic_carbon s) 0 50 \<and>
      in_range (trihalomethanes s) 0 200 \<and> in_range (turbidity s) 0 20)"

definition range_warnings :: "builtins \<Rightarrow> sample \<Rightarrow> string list" where
  \<comment> \<open>one message for each parameter outside its range, in the order of the parameters\<close>
  "range_warnings rt s =
     (if in_range (ph s) 0 14 then [] else [range_warning rt ''ph'' (ph s) 0 14]) @
     (if in_range (hardness s) 0 1000 then []
      else [range_warning rt ''hardness'' (hardness s) 0 1000]) @
     (if in_range (solids s) 0 100000 then []
      else [range_warning rt ''solids'' (solids s) 0 100000]) @
     (if in_range (chloramines s) 0 20 then []
      else [range_warning rt ''chloramines'' (chloramines s) 0 20]) @
     (if in_range (sulfate s) 0 1000 then []
      else [range_warning rt ''sulfate'' (sulfate s) 0 1000]) @
     (if in_range (conductivity s) 0 2000 then []
      else [range_warning rt ''conductivity'' (conductivity s) 0 2000]) @
     (if in_range (organic_carbon s) 0 50 then []
      else [range_warning rt ''organic_carbon'' (organic_carbon s) 0 50]) @
     (if in_range (trihalomethanes s) 0 200 then []
      else [range_warning rt ''trihalomethanes'' (trihalomethanes s) 0 200]) @
     (if in_range (turbidity s) 0 20 then []
      else [range_warning rt ''turbidity'' (turbidity s) 0 20])"

text \<open>
  A JSON object holds the nine parameters with numeric values when each name is a key and
  \<open>float\<close> converts its value; \<open>s\<close> is then the sample of the converted values.
\<close>

definition has_numeric :: "builtins \<Rightarrow> (string \<times> json) list \<Rightarrow> string \<Rightarrow> pyfloat \<Rightarrow> bool" where
  "has_numeric rt kvs k f =
     (case map_of kvs k of None \<Rightarrow> False | Some v \<Rightarrow> py_float rt v = Inr f)"

definition holds_sample :: "builtins \<Rightarrow> (string \<times> json) list \<Rightarrow> sample \<Rightarrow> bool" where
  "holds_sample rt kvs s =
     (has_numeric rt kvs ''ph'' (ph s) \<and> has_numeric rt kvs ''hardness'' (hardness s) \<and>
      has_numeric rt kvs ''solids'' (solids s) \<and>
      has_numeric rt kvs ''chloramines'' (chloramines s) \<and>
      has_numeric rt kvs ''sulfate'' (sulfate s) \<and>
      has_numeric rt kvs ''conductivity'' (conductivity s) \<and>
      has_numeric rt kvs ''organic_carbon'' (organic_carbon s) \<and>
      has_numeric rt kvs ''trihalomethanes'' (trihalomethanes s) \<and>
      has_numeric rt kvs ''turbidity'' (turbidity s))"

definition finite_accuracy :: "(string \<times> 'o result_entry) \<Rightarrow> bool" where
  "finite_accuracy e = (case res_accuracy (snd e) of Finite a \<Rightarrow> True | _ \<Rightarrow> False)"

text \<open>
  An entry of \<open>results\<close> is trained when it holds, for its name, the estimator the
  constructor call builds and \<open>fit\<close> fits, that estimator's predictions on the test set
  and their \<open>accuracy_score\<close> against the test labels.
\<close>

definition trained_entry :: "'o libs \<Rightarrow> 'o run \<Rightarrow> (string \<times> 'o result_entry) \<Rightarrow> bool" where
  "trained_entry lb rn e =
     (case fit rn (construct rn (fst e)) of
        Inl x \<Rightarrow> False
      | Inr fitted \<Rightarrow>
         (case predict lb fitted (X_test_scaled rn) of
            Inl x \<Rightarrow> False
          | Inr y_pred \<Rightarrow>
             (case accuracy_score rn (y_test rn) y_pred of
                Inl x \<Rightarrow> False
              | Inr a \<Rightarrow>
                  snd e = \<lparr>res_model = fitted, res_accuracy = Finite a,
                           res_predictions = y_pred\<rparr>)))"






section \<open>Example values\<close>

text \<open>
  Example values: builtins that print every float as \<open>x\<close> and read no string, and a
  library whose estimators are numbered: 0 the imputer, 1 the scaler, 2 a classifier with
  \<open>predict_proba\<close>, 3 a classifier without it; every classifier predicts label 1, but
  classifier 4 predicts label 0.
\<close>

definition example_rt :: builtins where
  "example_rt = \<lparr>float_repr = (\<lambda>f. ''x''), str_to_float = (\<lambda>s. None), int_to_float = of_int\<rparr>"

fun rows_of :: "table \<Rightarrow> matrix" where
  "rows_of (NdArray m) = m"
| "rows_of (DataFrame cols m) = m"

definition example_libs :: "nat libs" where
  "example_libs =
     \<lparr>pd_DataFrame = (\<lambda>m cols. case cols of
          JArray cs \<Rightarrow> if length cs = 9 then Inr (DataFrame cs m)
                       else Inl (Exc ValueError ''Shape of passed values does not match'')
        | _ \<Rightarrow> Inl (Exc TypeError ''Index(...) must be called with a collection'')),
      transform = (\<lambda>ob t. Inr (NdArray (rows_of t))),
      predict = (\<lambda>ob t. Inr [if ob = 4 then 0 else 1]),
      predict_proba = (\<lambda>ob t. if ob = 3
          then Inl (Exc AttributeError ''This SVC has no attribute predict_proba'')
          else Inr [[Finite (1/4), Finite (3/4)]]),
      type_name = (\<lambda>ob. if ob = 3 then ''SVC'' else ''RandomForestClassifier'')\<rparr>"

definition example_metadata :: json where
  "example_metadata = JObject [(''feature_names'', JArray (map JString required_params))]"

definition example_components :: "nat \<Rightarrow> nat components" where
  "example_components clf =
     \<lparr>mc_model = clf, mc_scaler = 1, mc_imputer = 0, mc_metadata = example_metadata\<rparr>"

definition example_server :: "nat \<Rightarrow> nat server" where
  "example_server clf = \<lparr>model_loaded = True, model_components = Some (example_components clf)\<rparr>"

definition stopped_server :: "nat server" where
  "stopped_server = \<lparr>model_loaded = False, model_components = None\<rparr>"

definition empty_fs :: "nat filesystem" where
  "empty_fs = \<lparr>dirs = [], files = []\<rparr>"

text \<open>The body that holds the values of a sample, each as a JSON number.\<close>

definition sample_fields :: "sample \<Rightarrow> (string \<times> json) list" where
  "sample_fields s = map (\<lambda>(k, v). (k, JFloat v)) (params_dict s)"

definition json_of_sample :: "sample \<Rightarrow> json" where
  "json_of_sample s = JObject (sample_fields s)"

definition out_of_range_sample :: sample where
  "out_of_range_sample = example_sample\<lparr>ph := Finite 15, turbidity := Finite (-1)\<rparr>"

definition huge_ph_body :: json where
  \<comment> \<open>a body whose \<open>ph\<close> is the integer written as 1 followed by 400 zeros\<close>
  "huge_ph_body =
     JObject [(''ph'', JInt (10 ^ 400)), (''hardness'', JFloat (Finite 200)),
       (''solids'', JFloat (Finite 20000)), (''chloramines'', JFloat (Finite 7)),
       (''sulfate'', JFloat (Finite 300)), (''conductivity'', JFloat (Finite 400)),
       (''organic_carbon'', JFloat (Finite 15)), (''trihalomethanes'', JFloat (Finite 70)),
       (''turbidity'', JFloat (Finite 4))]"

definition example_row :: matrix where
  "example_row = [[Finite 7, Finite 200, Finite 20000, Finite 7, Finite 300, Finite 400,
                   Finite 15, Finite 70, Finite 4]]"

definition example_frame :: table where
  "example_frame = DataFrame (map JString required_params) example_row"

definition pipeline_events :: "nat \<Rightarrow> nat event list" where
  "pipeline_events clf =
     [Ev_transform 0 example_frame, Ev_transform 1 (NdArray example_row),
      Ev_predict clf (NdArray example_row), Ev_predict_proba clf (NdArray example_row)]"

definition example_now :: datetime where
  "example_now = \<lparr>year = 2024, month = 1, day = 1, hour = 0, minute = 0, second = 0\<rparr>"


definition example_results :: "(string \<times> nat result_entry) list" where
  "example_results =
     [(''Random Forest'', \<lparr>res_model = 2, res_accuracy = Finite (2/3), res_predictions = [1, 0, 1]\<rparr>),
      (''SVM'', \<lparr>res_model = 3, res_accuracy = Finite (1/3), res_predictions = [0, 0, 0]\<rparr>)]"

definition example_saved_metadata :: json where
  "example_saved_metadata =
     JObject
      [(''model_name'', JString ''Random Forest''),
       (''model_type'', JString ''RandomForestClassifier''),
       (''accuracy'', JFloat (Finite (2/3))),
       (''feature_names'', JArray (map JString required_params)),
       (''training_date'', JString ''20240101_000000''),
       (''model_file'', JString ''saved_models/water_quality_model_20240101_000000.pkl''),
       (''scaler_file'', JString ''saved_models/scaler_20240101_000000.pkl''),
       (''imputer_file'', JString ''saved_models/imputer_20240101_000000.pkl''),
       (''preprocessing_steps'',
          JArray [JString ''SimpleImputer with mean strategy'',
                  JString ''StandardScaler normalization''])]"

definition example_saved_fs :: "nat filesystem" where
  \<comment> \<open>the empty file system after saving \<open>example_results\<close> at \<open>example_now\<close>\<close>
  "example_saved_fs =
     \<lparr>dirs = [''saved_models''],
      files =
       [(''saved_models/all_models_comparison_20240101_000000.json'',
           Json_file (JObject
             [(''Random Forest'', JObject [(''accuracy'', JFloat (Finite (2/3))),
                 (''model_type'', JString ''RandomForestClassifier'')]),
              (''SVM'', JObject [(''accuracy'', JFloat (Finite (1/3))),
                 (''model_type'', JString ''SVC'')])])),
        (''saved_models/model_metadata_20240101_000000.json'', Json_file example_saved_metadata),
        (''saved_models/imputer_20240101_000000.pkl'', Pickle 0),
        (''saved_models/scaler_20240101_000000.pkl'', Pickle 1),
        (''saved_models/water_quality_model_20240101_000000.pkl'', Pickle 2)]\<rparr>"



text \<open>
  An example run: the test set is one sample of label 0, every estimator is classifier 2
  but the decision tree, which is classifier 4, and the accuracy is the fraction of equal
  labels.
\<close>

definition example_run :: "nat run" where
  "example_run =
     \<lparr>construct = (\<lambda>name. if name = ''Decision Tree'' then 4 else 2),
      fit = (\<lambda>m. Inr m),
      X_test_scaled = NdArray example_row,
      y_test = [0],
      accuracy_score = (\<lambda>y_true y_pred.
        Inr (real (length (filter (\<lambda>(a, b). a = b) (zip y_true y_pred)))
               / real (length y_true))),
      run_scaler = 1,
      run_imputer = 0,
      X_columns = required_params,
      run_now = example_now\<rparr>"

definition wrong_entry :: "nat result_entry" where
  "wrong_entry = \<lparr>res_model = 2, res_accuracy = Finite 0, res_predictions = [1]\<rparr>"

definition example_trained_results :: "(string \<times> nat result_entry) list" where
  "example_trained_results =
     [(''Random Forest'', wrong_entry), (''Extra Trees'', wrong_entry),
      (''Logistic Regression'', wrong_entry), (''SVM'', wrong_entry),
      (''K-Neighbors'', wrong_entry), (''Naive Bayes'', wrong_entry),
      (''Decision Tree'', \<lparr>res_model = 4, res_accuracy = Finite 1, res_predictions = [0]\<rparr>)]"

definition example_saved_names :: saved_files where
  "example_saved_names =
     \<lparr>model_file = ''saved_models/water_quality_model_20240101_000000.pkl'',
      scaler_file = ''saved_models/scaler_20240101_000000.pkl'',
      imputer_file = ''saved_models/imputer_20240101_000000.pkl'',
      metadata_file = ''saved_models/model_metadata_20240101_000000.json'',
      results_file = ''saved_models/all_models_comparison_20240101_000000.json''\<rparr>"

text \<open>
  A run on which the support vector machine is the most accurate candidate: the test set is
  one sample of label 1, the SVM is classifier 3, which predicts 1 and has no
  \<open>predict_proba\<close>, and every other estimator is classifier 4, which predicts 0.
\<close>

definition svm_run :: "nat run" where
  "svm_run = example_run\<lparr>construct := (\<lambda>name. if name = ''SVM'' then 3 else 4), y_test := [1]\<rparr>"

definition missed_entry :: "nat result_entry" where
  "missed_entry = \<lparr>res_model = 4, res_accuracy = Finite 0, res_predictions = [0]\<rparr>"

definition svm_results :: "(string \<times> nat result_entry) list" where
  "svm_results =
     [(''Random Forest'', missed_entry), (''Extra Trees'', missed_entry),
      (''Logistic Regression'', missed_entry),
      (''SVM'', \<lparr>res_model = 3, res_accuracy = Finite 1, res_predictions = [1]\<rparr>),
      (''K-Neighbors'', missed_entry), (''Naive Bayes'', missed_entry),
      (''Decision Tree'', missed_entry)]"

section \<open>Range validation\<close>

lemma str_int_consts:
  "str_int 0 = ''0''" "str_int 14 = ''14''" "str_int 1000 = ''1000''" "str_int 100000 = ''100000''"
  "str_int 20 = ''20''" "str_int 2000 = ''2000''" "str_int 50 = ''50''" "str_int 200 = ''200''"
  by (simp_all add: str_int_def str_nat.simps digit_char_def)

lemma le_in_range: "(le_int_float lo v \<and> le_float_int v hi) = in_range v (of_int lo) (of_int hi)"
  by (cases v) (simp_all add: in_range_def)

lemma validate_loop_acc:
  "validate_loop rt ps ws = (case validate_loop rt ps [] of Inl e \<Rightarrow> Inl e | Inr w \<Rightarrow> Inr (ws @ w))"
proof (induction ps arbitrary: ws)
  case Nil
  show ?case by simp
next
  case (Cons p ps)
  obtain n v where p: "p = (n, v)" by (cases p)
  show ?case
  proof (cases "map_of ranges n")
    case None
    then show ?thesis by (simp add: p)
  next
    case (Some r)
    obtain lo hi where r: "r = (lo, hi)" by (cases r)
    show ?thesis
      using Cons.IH [of "ws @ [range_warning rt n v lo hi]"] Cons.IH [of ws]
        Cons.IH [of "[range_warning rt n v lo hi]"]
      by (simp add: p Some r split: sum.splits)
  qed
qed

lemma validate_loop_step:
  "map_of ranges n = Some (lo, hi) \<Longrightarrow>
   validate_loop rt ((n, v) # ps) [] =
     (case validate_loop rt ps [] of Inl e \<Rightarrow> Inl e
      | Inr w \<Rightarrow> Inr ((if in_range v (of_int lo) (of_int hi) then [] else [range_warning rt n v lo hi]) @ w))"
  using validate_loop_acc [of rt ps "[range_warning rt n v lo hi]"]
  by (simp add: le_in_range split: sum.splits)

lemma if_nil_iff: "((if c then [] else [x]) = []) = c"
  by simp

lemma ranges_lookup:
  "map_of ranges ''ph'' = Some (0, 14)"
  "map_of ranges ''hardness'' = Some (0, 1000)"
  "map_of ranges ''solids'' = Some (0, 100000)"
  "map_of ranges ''chloramines'' = Some (0, 20)"
  "map_of ranges ''sulfate'' = Some (0, 1000)"
  "map_of ranges ''conductivity'' = Some (0, 2000)"
  "map_of ranges ''organic_carbon'' = Some (0, 50)"
  "map_of ranges ''trihalomethanes'' = Some (0, 200)"
  "map_of ranges ''turbidity'' = Some (0, 20)"
  by (simp_all add: ranges_def)

lemma validate_loop_params:
  "validate_loop rt (params_dict s) [] = Inr (range_warnings rt s)"
  unfolding params_dict_def range_warnings_def
  by (simp add: ranges_lookup [THEN validate_loop_step] del: validate_loop.simps(2) split del: if_split)

lemma range_warnings_nil: "(range_warnings rt s = []) = all_in_range s"
  unfolding range_warnings_def all_in_range_def
  by (simp add: if_nil_iff split del: if_split)

lemma validate_eq:
  "validate_input_parameters rt s = Inr (all_in_range s, range_warnings rt s)"
  by (simp add: validate_input_parameters_def validate_loop_params range_warnings_nil)

text \<open>
  C2: for every nine inputs, \<open>validate_input_parameters\<close> returns \<open>(is_valid, warnings)\<close>
  where \<open>is_valid\<close> holds exactly when every parameter lies within its documented inclusive
  range, \<open>warnings\<close> holds one message for each parameter outside its range, and
  \<open>is_valid\<close> holds exactly when \<open>warnings\<close> is empty. Infinities and NaN count as outside.
\<close>

theorem validate_input_parameters_ranges:
  "validate_input_parameters rt s = Inr (all_in_range s, range_warnings rt s)
   \<and> (all_in_range s \<longleftrightarrow> range_warnings rt s = [])"
  by (simp add: validate_eq range_warnings_nil)

section \<open>The handler when no model is loaded\<close>

text \<open>
  C9: when \<open>model_loaded\<close> is false, the handler answers 503 "Model not loaded" and leaves
  the trace empty: the body is not read, \<open>validate_input_parameters\<close> is not called and no
  library call is made. \<open>model_loaded\<close> is false after a start-up at which the load failed.
\<close>

theorem not_loaded_is_503:
  "(\<not> model_loaded st \<longrightarrow>
      predict_water_quality lb rt fs now_iso st req =
        ((503, Error ''Model not loaded''
            ''The prediction model is not available. Please check server logs.'' None), st, []))
   \<and> (isl (fst (load_model fs st0)) \<longrightarrow> \<not> model_loaded (initialize_model fs st0))"
  by (auto simp: predict_water_quality_def initialize_model_def isl_def split: prod.splits sum.splits)

theorem not_loaded_is_503_witness:
  "\<not> model_loaded stopped_server
   \<and> predict_water_quality example_libs example_rt empty_fs ''2024-01-01T00:00:00''
        stopped_server (Inr (json_of_sample example_sample)) =
        ((503, Error ''Model not loaded''
            ''The prediction model is not available. Please check server logs.'' None),
         stopped_server, [])
   \<and> isl (fst (load_model empty_fs stopped_server))
   \<and> \<not> model_loaded (initialize_model empty_fs stopped_server)"
  using not_loaded_is_503 [of stopped_server example_libs example_rt empty_fs
      "''2024-01-01T00:00:00''" "Inr (json_of_sample example_sample)" stopped_server]
  by (simp add: stopped_server_def load_model_def load_trained_model_def path_exists_def
      empty_fs_def)

section \<open>The prediction pipeline\<close>

lemmas service_defs =
  predict_water_quality_def get_water_quality_prediction_def predictWaterQuality_def
  load_model_def predict_with_saved_model_def first_results_def index_py_def
  build_prediction_def log_confidence_def confidence_of_def probability_at_def
  safety_status_of_def extract_sample_def float_of_key_def json_of_sample_def params_dict_def
  required_params_def example_libs_def example_server_def example_components_def
  example_metadata_def example_sample_def input_row_def prediction_failed_def
  example_row_def example_frame_def pipeline_events_def sample_fields_def

text \<open>
  C3: \<open>predict_with_saved_model\<close> builds the one-row input in the order ph, hardness,
  solids, chloramines, sulfate, conductivity, organic_carbon, trihalomethanes, turbidity,
  calls the imputer's \<open>transform\<close> on it, then the scaler's \<open>transform\<close> on the imputed
  result, and only then the classifier's \<open>predict\<close> on the scaled result. First part: when
  each step succeeds, these are the calls made, in this order. Second part: whenever the
  classifier's \<open>predict\<close> is called at all, its argument is the scaler's output on the
  imputer's output on that row, and the two \<open>transform\<close> calls come before it.
\<close>

theorem predict_with_saved_model_order:
  "(subscript_str (mc_metadata mc) ''feature_names'' = Inr fn
      \<and> pd_DataFrame lb [[ph s, hardness s, solids s, chloramines s, sulfate s,
            conductivity s, organic_carbon s, trihalomethanes s, turbidity s]] fn = Inr df
      \<and> transform lb (mc_imputer mc) df = Inr imp
      \<and> transform lb (mc_scaler mc) imp = Inr sc
      \<and> predict lb (mc_model mc) sc = Inr pred
    \<longrightarrow> snd (predict_with_saved_model lb mc s tr) =
          tr @ [Ev_transform (mc_imputer mc) df, Ev_transform (mc_scaler mc) imp,
                Ev_predict (mc_model mc) sc, Ev_predict_proba (mc_model mc) sc]
        \<and> fst (predict_with_saved_model lb mc s tr) =
          (case predict_proba lb (mc_model mc) sc of
             Inr pm \<Rightarrow> first_results pred (Some pm)
           | Inl e \<Rightarrow> if exc_class_of e = AttributeError then first_results pred None else Inl e))
   \<and> (Ev_predict m x \<in> set (snd (predict_with_saved_model lb mc s [])) \<longrightarrow>
        (\<exists>fn' df' imp'.
           subscript_str (mc_metadata mc) ''feature_names'' = Inr fn'
         \<and> pd_DataFrame lb [[ph s, hardness s, solids s, chloramines s, sulfate s,
              conductivity s, organic_carbon s, trihalomethanes s, turbidity s]] fn' = Inr df'
         \<and> transform lb (mc_imputer mc) df' = Inr imp'
         \<and> transform lb (mc_scaler mc) imp' = Inr x
         \<and> m = mc_model mc
         \<and> take 3 (snd (predict_with_saved_model lb mc s [])) =
             [Ev_transform (mc_imputer mc) df', Ev_transform (mc_scaler mc) imp',
              Ev_predict (mc_model mc) x]))"
  by (auto simp: predict_with_saved_model_def input_row_def Let_def split: sum.splits)

theorem predict_with_saved_model_order_witness:
  "subscript_str (mc_metadata (example_components 2)) ''feature_names'' =
     Inr (JArray (map JString required_params))
   \<and> pd_DataFrame example_libs example_row (JArray (map JString required_params)) =
     Inr example_frame
   \<and> transform example_libs 0 example_frame = Inr (NdArray example_row)
   \<and> transform example_libs 1 (NdArray example_row) = Inr (NdArray example_row)
   \<and> predict example_libs 2 (NdArray example_row) = Inr [1]
   \<and> predict_with_saved_model example_libs (example_components 2) example_sample [] =
     (Inr (1, Some [Finite (1/4), Finite (3/4)]), pipeline_events 2)"
  using predict_with_saved_model_order [of "example_components 2"
      "JArray (map JString required_params)" example_libs example_sample
      example_frame "NdArray example_row" "NdArray example_row" "[1]" "[]" 2
      "NdArray example_row"]
  by (simp add: service_defs)

section \<open>The potability label\<close>

text \<open>
  C5: a prediction of 1 is rendered as safe (\<open>is_safe_to_drink\<close> true, "Safe to drink") and
  a prediction of 0 as not safe (\<open>is_safe_to_drink\<close> false, "Not safe to drink"), both in
  the dictionary \<open>get_water_quality_prediction\<close> returns and in the \<open>prediction\<close> object of
  the handler's response.
\<close>

theorem potability_label_consistent:
  "(get_water_quality_prediction lb fs st s d tr = (Inr r, st', tr') \<longrightarrow>
      (r_prediction r = 1 \<longrightarrow> r_is_safe_to_drink r \<and> r_safety_status r = ''Safe to drink'') \<and>
      (r_prediction r = 0 \<longrightarrow>
         \<not> r_is_safe_to_drink r \<and> r_safety_status r = ''Not safe to drink''))
   \<and> (predict_water_quality lb rt fs now_iso st req = ((code, Prediction b), st'', tr'') \<longrightarrow>
      (raw_prediction (prediction b) = 1 \<longrightarrow>
         is_safe_to_drink (prediction b) \<and> safety_status (prediction b) = ''Safe to drink'') \<and>
      (raw_prediction (prediction b) = 0 \<longrightarrow>
         \<not> is_safe_to_drink (prediction b)
         \<and> safety_status (prediction b) = ''Not safe to drink''))"
proof -
  have a: "get_water_quality_prediction lb fs st s d tr = (Inr r, st', tr') \<Longrightarrow>
      r_is_safe_to_drink r = (r_prediction r = 1)
      \<and> r_safety_status r = safety_status_of (r_prediction r = 1)"
    by (auto simp: get_water_quality_prediction_def Let_def split: prod.splits sum.splits)
  have b: "build_prediction p pr = Inr pobj \<Longrightarrow>
      is_safe_to_drink pobj = (raw_prediction pobj = 1)
      \<and> safety_status pobj = safety_status_of (raw_prediction pobj = 1)" for p pr pobj
    by (auto simp: build_prediction_def split: sum.splits)
  have c: "predict_water_quality lb rt fs now_iso st req = ((code, Prediction b), st'', tr'') \<Longrightarrow>
      \<exists>p pr. build_prediction p pr = Inr (prediction b)"
    unfolding predict_water_quality_def prediction_failed_def
    by (auto split: if_splits prod.splits sum.splits; blast)
  show ?thesis
    using a b c by (auto simp: safety_status_of_def)
qed

theorem potability_label_consistent_witness:
  "get_water_quality_prediction example_libs empty_fs (example_server 2) example_sample True [] =
     (Inr \<lparr>r_prediction = 1, r_is_safe_to_drink = True, r_safety_status = ''Safe to drink'',
           r_confidence = Some (Finite (3/4)), r_probability_safe = Some (Finite (3/4)),
           r_probability_not_safe = Some (Finite (1/4)),
           r_input_parameters = Some example_sample\<rparr>,
      example_server 2, Ev_predictWaterQuality example_sample # pipeline_events 2)
   \<and> get_water_quality_prediction example_libs empty_fs (example_server 4) example_sample True [] =
     (Inr \<lparr>r_prediction = 0, r_is_safe_to_drink = False,
          r_safety_status = ''Not safe to drink'',
          r_confidence = Some (Finite (3/4)), r_probability_safe = Some (Finite (3/4)),
          r_probability_not_safe = Some (Finite (1/4)),
          r_input_parameters = Some example_sample\<rparr>,
      example_server 4, Ev_predictWaterQuality example_sample # pipeline_events 4)
   \<and> fst (predict_water_quality example_libs example_rt empty_fs ''2024-01-01T00:00:00''
        (example_server 2) (Inr (JObject (sample_fields example_sample)))) =
     (200, Prediction
        \<lparr>prediction = \<lparr>raw_prediction = 1, is_safe_to_drink = True,
            safety_status = ''Safe to drink'', confidence = Some (Finite (3/4)),
            probability_scores = \<lparr>not_safe = Some (Finite (1/4)), safe = Some (Finite (3/4))\<rparr>\<rparr>,
         input_parameters = example_sample,
         validation = \<lparr>is_valid = True, warnings = []\<rparr>,
         metadata = \<lparr>timestamp = ''2024-01-01T00:00:00'', model_version = ''1.0.0''\<rparr>\<rparr>)
   \<and> fst (predict_water_quality example_libs example_rt empty_fs ''2024-01-01T00:00:00''
        (example_server 4) (Inr (JObject (sample_fields example_sample)))) =
     (200, Prediction
        \<lparr>prediction = \<lparr>raw_prediction = 0, is_safe_to_drink = False,
            safety_status = ''Not safe to drink'', confidence = Some (Finite (3/4)),
            probability_scores = \<lparr>not_safe = Some (Finite (1/4)), safe = Some (Finite (3/4))\<rparr>\<rparr>,
         input_parameters = example_sample,
         validation = \<lparr>is_valid = True, warnings = []\<rparr>,
         metadata = \<lparr>timestamp = ''2024-01-01T00:00:00'', model_version = ''1.0.0''\<rparr>\<rparr>)"
proof -
  have v: "validate_input_parameters example_rt example_sample = Inr (True, [])"
    by (simp add: validate_eq all_in_range_def range_warnings_def in_range_def example_sample_def)
  have g2: "get_water_quality_prediction example_libs empty_fs (example_server 2) example_sample True [] =
     (Inr \<lparr>r_prediction = 1, r_is_safe_to_drink = True, r_safety_status = ''Safe to drink'',
           r_confidence = Some (Finite (3/4)), r_probability_safe = Some (Finite (3/4)),
           r_probability_not_safe = Some (Finite (1/4)),
           r_input_parameters = Some example_sample\<rparr>,
      example_server 2, Ev_predictWaterQuality example_sample # pipeline_events 2)"
    by (simp add: service_defs)
  have g4: "get_water_quality_prediction example_libs empty_fs (example_server 4) example_sample True [] =
     (Inr \<lparr>r_prediction = 0, r_is_safe_to_drink = False,
          r_safety_status = ''Not safe to drink'',
          r_confidence = Some (Finite (3/4)), r_probability_safe = Some (Finite (3/4)),
          r_probability_not_safe = Some (Finite (1/4)),
          r_input_parameters = Some example_sample\<rparr>,
      example_server 4, Ev_predictWaterQuality example_sample # pipeline_events 4)"
    by (simp add: service_defs)
  have e: "extract_sample example_rt (JObject (sample_fields example_sample)) = Inr example_sample"
    by (simp add: service_defs)
  have h: "predict_water_quality example_libs example_rt empty_fs ''2024-01-01T00:00:00''
        (example_server clf) (Inr (JObject (sample_fields example_sample))) =
     ((200, Prediction
        \<lparr>prediction = \<lparr>raw_prediction = (if clf = 4 then 0 else 1), is_safe_to_drink = (clf \<noteq> 4),
            safety_status = (if clf = 4 then ''Not safe to drink'' else ''Safe to drink''), confidence = Some (Finite (3/4)),
            probability_scores = \<lparr>not_safe = Some (Finite (1/4)), safe = Some (Finite (3/4))\<rparr>\<rparr>,
         input_parameters = example_sample,
         validation = \<lparr>is_valid = True, warnings = []\<rparr>,
         metadata = \<lparr>timestamp = ''2024-01-01T00:00:00'', model_version = ''1.0.0''\<rparr>\<rparr>),
       example_server clf,
       [Ev_get_json, Ev_validate example_sample, Ev_predictWaterQuality example_sample]
         @ pipeline_events clf
         @ [Ev_get_water_quality_prediction example_sample, Ev_predictWaterQuality example_sample]
         @ pipeline_events clf)" if "clf \<noteq> 3" for clf
    unfolding predict_water_quality_def using that
    by (simp add: service_defs v [unfolded example_sample_def])
  let ?r2 = "\<lparr>r_prediction = 1, r_is_safe_to_drink = True, r_safety_status = ''Safe to drink'',
           r_confidence = Some (Finite (3/4)), r_probability_safe = Some (Finite (3/4)),
           r_probability_not_safe = Some (Finite (1/4)),
           r_input_parameters = Some example_sample\<rparr>"
  let ?r4 = "\<lparr>r_prediction = 0, r_is_safe_to_drink = False,
          r_safety_status = ''Not safe to drink'',
          r_confidence = Some (Finite (3/4)), r_probability_safe = Some (Finite (3/4)),
          r_probability_not_safe = Some (Finite (1/4)),
          r_input_parameters = Some example_sample\<rparr>"
  let ?b2 = "\<lparr>prediction = \<lparr>raw_prediction = 1, is_safe_to_drink = True,
            safety_status = ''Safe to drink'', confidence = Some (Finite (3/4)),
            probability_scores = \<lparr>not_safe = Some (Finite (1/4)), safe = Some (Finite (3/4))\<rparr>\<rparr>,
         input_parameters = example_sample,
         validation = \<lparr>is_valid = True, warnings = []\<rparr>,
         metadata = \<lparr>timestamp = ''2024-01-01T00:00:00'', model_version = ''1.0.0''\<rparr>\<rparr>"
  let ?b4 = "\<lparr>prediction = \<lparr>raw_prediction = 0, is_safe_to_drink = False,
            safety_status = ''Not safe to drink'', confidence = Some (Finite (3/4)),
            probability_scores = \<lparr>not_safe = Some (Finite (1/4)), safe = Some (Finite (3/4))\<rparr>\<rparr>,
         input_parameters = example_sample,
         validation = \<lparr>is_valid = True, warnings = []\<rparr>,
         metadata = \<lparr>timestamp = ''2024-01-01T00:00:00'', model_version = ''1.0.0''\<rparr>\<rparr>"
  let ?tr = "\<lambda>clf. [Ev_get_json, Ev_validate example_sample, Ev_predictWaterQuality example_sample]
         @ pipeline_events clf
         @ [Ev_get_water_quality_prediction example_sample, Ev_predictWaterQuality example_sample]
         @ pipeline_events clf"
  show ?thesis
    using potability_label_consistent [where lb = example_libs and fs = empty_fs
        and st = "example_server 2" and s = example_sample and d = True and tr = "[]"
        and rt = example_rt and now_iso = "''2024-01-01T00:00:00''"
        and req = "Inr (JObject (sample_fields example_sample))"
        and r = ?r2 and st' = "example_server 2"
        and tr' = "Ev_predictWaterQuality example_sample # pipeline_events 2"
        and code = 200 and b = ?b2 and st'' = "example_server 2" and tr'' = "?tr 2"]
      potability_label_consistent [where lb = example_libs and fs = empty_fs
        and st = "example_server 4" and s = example_sample and d = True and tr = "[]"
        and rt = example_rt and now_iso = "''2024-01-01T00:00:00''"
        and req = "Inr (JObject (sample_fields example_sample))"
        and r = ?r4 and st' = "example_server 4"
        and tr' = "Ev_predictWaterQuality example_sample # pipeline_events 4"
        and code = 200 and b = ?b4 and st'' = "example_server 4" and tr'' = "?tr 4"]
    by (simp add: g2 g4 h)
qed

section \<open>The handler on well-formed and ill-formed bodies\<close>

lemma predict_with_saved_model_trace:
  "predict_with_saved_model lb mc s tr =
     (fst (predict_with_saved_model lb mc s []), tr @ snd (predict_with_saved_model lb mc s []))"
  by (simp add: predict_with_saved_model_def Let_def split: sum.splits)

lemma has_numeric_key: "has_numeric rt kvs k f \<Longrightarrow> k \<in> fst ` set kvs"
  by (auto simp: has_numeric_def split: option.splits dest: map_of_SomeD intro: rev_image_eqI)

lemma has_numeric_float: "has_numeric rt kvs k f \<Longrightarrow> float_of_key rt (JObject kvs) k = Inr f"
  by (auto simp: has_numeric_def float_of_key_def split: option.splits)

lemma holds_sample_missing:
  "holds_sample rt kvs s \<Longrightarrow> missing_of (JObject kvs) required_params = Inr []"
  by (auto simp: holds_sample_def required_params_def dest: has_numeric_key)

lemma holds_sample_truthy: "holds_sample rt kvs s \<Longrightarrow> truthy (JObject kvs)"
  by (auto simp: holds_sample_def dest: has_numeric_key)

lemma holds_sample_extract:
  "holds_sample rt kvs s \<Longrightarrow> extract_sample rt (JObject kvs) = Inr s"
  by (auto simp: holds_sample_def extract_sample_def dest!: has_numeric_float)

lemma py_max_float_nonempty:
  "row \<noteq> [] \<Longrightarrow>
     py_max_float row = Inr (foldl (\<lambda>m y. if gt_float y m then y else m) (hd row) (tl row))"
  by (cases row) simp_all

text \<open>
  C1, as amended: when the model is loaded and the classifier returns a label and a
  probability row with both classes, every request whose JSON object holds the nine
  parameters with values \<open>float\<close> converts is answered 200 with the prediction, whether or
  not the values lie in their ranges: \<open>validation.warnings\<close> holds one message for each
  value outside its range and \<open>validation.is_valid\<close> is false exactly when there is one.
\<close>

theorem out_of_range_only_warns:
  assumes "model_loaded st" and "model_components st = Some mc"
    and "holds_sample rt kvs s"
    and "fst (predict_with_saved_model lb mc s []) = Inr (p, Some row)"
    and "2 \<le> length row"
  shows "fst (predict_water_quality lb rt fs now_iso st (Inr (JObject kvs))) =
     (200, Prediction
        \<lparr>prediction =
           \<lparr>raw_prediction = p, is_safe_to_drink = (p = 1),
            safety_status = (if p = 1 then ''Safe to drink'' else ''Not safe to drink''),
            confidence = Some (foldl (\<lambda>m y. if gt_float y m then y else m) (hd row) (tl row)),
            probability_scores = \<lparr>not_safe = Some (row ! 0), safe = Some (row ! 1)\<rparr>\<rparr>,
         input_parameters = s,
         validation = \<lparr>is_valid = all_in_range s, warnings = range_warnings rt s\<rparr>,
         metadata = \<lparr>timestamp = now_iso, model_version = ''1.0.0''\<rparr>\<rparr>)
     \<and> (all_in_range s \<longleftrightarrow> range_warnings rt s = [])"
proof -
  have row: "row \<noteq> []" "0 < length row" "1 < length row"
    using assms(5) by auto
  have pw: "predictWaterQuality lb fs st s tr =
      (Inr (p, Some row), st, tr @ snd (predict_with_saved_model lb mc s []))" for tr
    using assms(2,4) predict_with_saved_model_trace [of lb mc s tr]
    by (simp add: predictWaterQuality_def load_model_def)
  have conf: "confidence_of (Some row) =
      Inr (Some (foldl (\<lambda>m y. if gt_float y m then y else m) (hd row) (tl row)))"
    by (simp add: confidence_of_def py_max_float_nonempty row)
  have pa: "probability_at (Some row) 0 = Inr (Some (row ! 0))"
      "probability_at (Some row) 1 = Inr (Some (row ! 1))"
      "probability_at (Some row) (Suc 0) = Inr (Some (row ! 1))"
    using row by (simp_all add: probability_at_def index_py_def)
  have lg: "log_confidence (Some row) = Inr ()"
    by (simp add: log_confidence_def py_max_float_nonempty row)
  have gw: "\<exists>r tr'. get_water_quality_prediction lb fs st s True tr = (Inr r, st, tr')" for tr
    by (simp add: get_water_quality_prediction_def pw conf pa Let_def)
  have bp: "build_prediction p (Some row) = Inr
           \<lparr>raw_prediction = p, is_safe_to_drink = (p = 1),
            safety_status = (if p = 1 then ''Safe to drink'' else ''Not safe to drink''),
            confidence = Some (foldl (\<lambda>m y. if gt_float y m then y else m) (hd row) (tl row)),
            probability_scores = \<lparr>not_safe = Some (row ! 0), safe = Some (row ! 1)\<rparr>\<rparr>"
    by (simp add: build_prediction_def conf pa safety_status_of_def)
  obtain r tr' where g: "get_water_quality_prediction lb fs st s True
      (Ev_get_json # Ev_validate s # Ev_predictWaterQuality s
        # snd (predict_with_saved_model lb mc s []) @ [Ev_get_water_quality_prediction s]) =
      (Inr r, st, tr')"
    using gw by blast
  have "fst (predict_water_quality lb rt fs now_iso st (Inr (JObject kvs))) =
     (200, Prediction
        \<lparr>prediction =
           \<lparr>raw_prediction = p, is_safe_to_drink = (p = 1),
            safety_status = (if p = 1 then ''Safe to drink'' else ''Not safe to drink''),
            confidence = Some (foldl (\<lambda>m y. if gt_float y m then y else m) (hd row) (tl row)),
            probability_scores = \<lparr>not_safe = Some (row ! 0), safe = Some (row ! 1)\<rparr>\<rparr>,
         input_parameters = s,
         validation = \<lparr>is_valid = all_in_range s, warnings = range_warnings rt s\<rparr>,
         metadata = \<lparr>timestamp = now_iso, model_version = ''1.0.0''\<rparr>\<rparr>)"
    unfolding predict_water_quality_def
    using assms(1) holds_sample_truthy [OF assms(3)]
    by (simp add: holds_sample_missing [OF assms(3)] holds_sample_extract [OF assms(3)]
        validate_eq pw g bp lg del: truthy.simps)
  then show ?thesis
    by (simp add: range_warnings_nil)
qed

theorem out_of_range_only_warns_witness:
  "model_loaded (example_server 2)
   \<and> model_components (example_server 2) = Some (example_components 2)
   \<and> holds_sample example_rt (sample_fields out_of_range_sample) out_of_range_sample
   \<and> fst (predict_with_saved_model example_libs (example_components 2) out_of_range_sample []) =
       Inr (1, Some [Finite (1/4), Finite (3/4)])
   \<and> 2 \<le> length [Finite (1/4), Finite (3/4)]
   \<and> \<not> all_in_range out_of_range_sample
   \<and> fst (predict_water_quality example_libs example_rt empty_fs ''2024-01-01T00:00:00''
        (example_server 2) (Inr (JObject (sample_fields out_of_range_sample)))) =
     (200, Prediction
        \<lparr>prediction = \<lparr>raw_prediction = 1, is_safe_to_drink = True,
            safety_status = ''Safe to drink'', confidence = Some (Finite (3/4)),
            probability_scores = \<lparr>not_safe = Some (Finite (1/4)), safe = Some (Finite (3/4))\<rparr>\<rparr>,
         input_parameters = out_of_range_sample,
         validation = \<lparr>is_valid = False,
            warnings = [''ph (x) is outside typical range (0-14)'',
                        ''turbidity (x) is outside typical range (0-20)'']\<rparr>,
         metadata = \<lparr>timestamp = ''2024-01-01T00:00:00'', model_version = ''1.0.0''\<rparr>\<rparr>)"
  using out_of_range_only_warns [where st = "example_server 2" and mc = "example_components 2"
      and rt = example_rt and kvs = "sample_fields out_of_range_sample"
      and s = out_of_range_sample and lb = example_libs and p = 1
      and row = "[Finite (1/4), Finite (3/4)]" and fs = empty_fs
      and now_iso = "''2024-01-01T00:00:00''"]
  by (simp add: service_defs out_of_range_sample_def holds_sample_def has_numeric_def
      all_in_range_def range_warnings_def in_range_def range_warning_def str_int_consts
      example_rt_def)

text \<open>
  C1 as stated fails where no model is loaded: a body with all nine numeric values is
  answered 503.
\<close>

theorem model_not_loaded_rejects_numeric_body:
  "holds_sample example_rt (sample_fields out_of_range_sample) out_of_range_sample
   \<and> fst (predict_water_quality example_libs example_rt empty_fs ''2024-01-01T00:00:00''
        stopped_server (Inr (JObject (sample_fields out_of_range_sample)))) =
     (503, Error ''Model not loaded''
        ''The prediction model is not available. Please check server logs.'' None)"
  by (simp add: service_defs out_of_range_sample_def holds_sample_def has_numeric_def
      stopped_server_def)

text \<open>
  C4: the response to a request with the nine numeric parameters carries the label and the
  probability of each class, also for a classifier for which \<open>predict_with_saved_model\<close>
  returns \<open>None\<close> in place of the probabilities. For such a classifier the predictor returns
  \<open>(1, None)\<close> and the handler answers 500: the last \<open>logger.info\<close> takes
  \<open>max(probability)\<close> of \<open>None\<close>.
\<close>

theorem missing_predict_proba_gives_500:
  "fst (predictWaterQuality example_libs empty_fs (example_server 3) example_sample []) =
     Inr (1, None)
   \<and> fst (predict_water_quality example_libs example_rt empty_fs ''2024-01-01T00:00:00''
        (example_server 3) (Inr (JObject (sample_fields example_sample)))) =
     (500, Error ''Prediction failed''
        (repr_str ''NoneType'' @ '' object is not iterable'') None)"
proof -
  have v: "validate_input_parameters example_rt example_sample = Inr (True, [])"
    by (simp add: validate_eq all_in_range_def range_warnings_def in_range_def example_sample_def)
  show ?thesis
    by (simp add: service_defs v [unfolded example_sample_def])
qed

text \<open>
  What the handler does answer 400 to, with the body read and nothing else called: a
  non-empty JSON object that omits required names, with the omitted names in the message;
  and a body with all nine names where a conversion raises ValueError or TypeError.
\<close>

lemma missing_of_object:
  "missing_of (JObject kvs) ps = Inr (filter (\<lambda>p. p \<notin> fst ` set kvs) ps)"
  by (induction ps) auto

lemma missing_names_400:
  assumes "model_loaded st" and "kvs \<noteq> []"
    and "filter (\<lambda>p. p \<notin> fst ` set kvs) required_params \<noteq> []"
  shows "predict_water_quality lb rt fs now_iso st (Inr (JObject kvs)) =
     ((400, Error ''Missing parameters''
         (''Missing required parameters: ''
            @ repr_str_list (filter (\<lambda>p. p \<notin> fst ` set kvs) required_params))
         (Some required_params)),
      st, [Ev_get_json])"
  using assms by (simp add: predict_water_quality_def missing_of_object)

lemma not_numeric_400:
  assumes "model_loaded st" and "truthy data"
    and "missing_of data required_params = Inr []"
    and "extract_sample rt data = Inl e"
    and "exc_class_of e = ValueError \<or> exc_class_of e = TypeError"
  shows "predict_water_quality lb rt fs now_iso st (Inr data) =
     ((400, Error ''Invalid parameter values'' ''All parameters must be numeric values'' None),
      st, [Ev_get_json])"
  using assms by (simp add: predict_water_quality_def)

text \<open>
  C6: a body that omits a required name is answered 400 with the missing names, and a body
  with all nine names and a value that cannot be converted to \<open>float\<close> is answered 400
  "Invalid parameter values". An integer too large for a double raises OverflowError, which
  the handler does not catch beside ValueError and TypeError: the answer is 500. So is the
  answer to a body that is a number, where the test for the names raises TypeError.
\<close>

theorem unconvertible_value_gives_500:
  "fst (predict_water_quality example_libs example_rt empty_fs ''2024-01-01T00:00:00''
        (example_server 2) (Inr huge_ph_body)) =
     (500, Error ''Prediction failed'' ''int too large to convert to float'' None)
   \<and> fst (predict_water_quality example_libs example_rt empty_fs ''2024-01-01T00:00:00''
        (example_server 2) (Inr (JInt 5))) =
     (500, Error ''Prediction failed''
        (''argument of type '' @ repr_str ''int'' @ '' is not iterable'') None)"
  by (simp add: service_defs huge_ph_body_def)

section \<open>Saving and loading\<close>

lemma map_of_filter_neq:
  "map_of (filter (\<lambda>e. fst e \<noteq> p) xs) q = (if q = p then None else map_of xs q)"
  by (induction xs) auto

lemma files_write_file:
  "map_of (files (write_file fs p c)) q = (if q = p then Some c else map_of (files fs) q)"
  by (simp add: write_file_def map_of_filter_neq)

lemma dirs_write_file: "dirs (write_file fs p c) = dirs fs"
  by (simp add: write_file_def)

lemma makedirs_dir: "makedirs fs d = Inr fs0 \<Longrightarrow> d \<in> set (dirs fs0)"
  by (auto simp: makedirs_def split: if_splits)

lemmas filename_defs =
  model_filename_of_def scaler_filename_of_def imputer_filename_of_def
  metadata_filename_of_def results_filename_of_def

lemma stamp_example: "strftime_stamp example_now = ''20240101_000000''"
  by (simp add: strftime_stamp_def example_now_def pad2_def str_nat.simps digit_char_def)

lemma save_then_load:
  assumes "save_trained_model lb fs now results best_model_name scaler imputer feature_names
             model_dir = (Inr saved, fs')"
  shows "\<exists>best. map_of results best_model_name = Some best
     \<and> load_trained_model fs' model_dir (Some (strftime_stamp now)) =
         Inr \<lparr>mc_model = res_model best, mc_scaler = scaler, mc_imputer = imputer,
              mc_metadata = metadata_json lb best_model_name best feature_names model_dir
                              (strftime_stamp now)\<rparr>
     \<and> subscript_str (metadata_json lb best_model_name best feature_names model_dir
                              (strftime_stamp now)) ''model_name'' = Inr (JString best_model_name)
     \<and> subscript_str (metadata_json lb best_model_name best feature_names model_dir
                              (strftime_stamp now)) ''accuracy'' = Inr (JFloat (res_accuracy best))
     \<and> subscript_str (metadata_json lb best_model_name best feature_names model_dir
                              (strftime_stamp now)) ''feature_names'' =
           Inr (JArray (map JString feature_names))"
proof -
  obtain fs0 where mk: "makedirs fs model_dir = Inr fs0"
    using assms by (auto simp: save_trained_model_def split: sum.splits)
  obtain best where best: "map_of results best_model_name = Some best"
    using assms mk by (auto simp: save_trained_model_def Let_def split: option.splits)
  let ?t = "strftime_stamp now"
  let ?md = "metadata_json lb best_model_name best feature_names model_dir ?t"
  have fs': "fs' =
      write_file (write_file (write_file (write_file (write_file fs0
        (model_filename_of model_dir ?t) (Pickle (res_model best)))
        (scaler_filename_of model_dir ?t) (Pickle scaler))
        (imputer_filename_of model_dir ?t) (Pickle imputer))
        (metadata_filename_of model_dir ?t) (Json_file ?md))
        (results_filename_of model_dir ?t) (Json_file (all_results_json lb results))"
    using assms by (simp add: save_trained_model_def mk best Let_def)
  have ex: "path_exists fs' model_dir"
    using makedirs_dir [OF mk] by (simp add: fs' path_exists_def dirs_write_file)
  have m: "joblib_load fs' (model_filename_of model_dir ?t) = Inr (res_model best)"
    by (simp add: fs' joblib_load_def files_write_file filename_defs)
  have s: "joblib_load fs' (scaler_filename_of model_dir ?t) = Inr scaler"
    by (simp add: fs' joblib_load_def files_write_file filename_defs)
  have i: "joblib_load fs' (imputer_filename_of model_dir ?t) = Inr imputer"
    by (simp add: fs' joblib_load_def files_write_file filename_defs)
  have j: "json_load fs' (metadata_filename_of model_dir ?t) = Inr ?md"
    by (simp add: fs' json_load_def files_write_file filename_defs)
  have "load_trained_model fs' model_dir (Some ?t) =
         Inr \<lparr>mc_model = res_model best, mc_scaler = scaler, mc_imputer = imputer,
              mc_metadata = ?md\<rparr>"
    by (simp add: load_trained_model_def ex load_components_def m s i j)
  then show ?thesis
    using best by (simp add: metadata_json_def)
qed


text \<open>
  C7: if \<open>save_trained_model\<close> persists a results dictionary, best model name, scaler,
  imputer and feature names under timestamp \<open>t\<close> in a model directory, then
  \<open>load_trained_model\<close> on that directory with timestamp \<open>t\<close> returns the saved model,
  scaler and imputer, and metadata recording the saved model name, accuracy and feature
  names.
\<close>

theorem save_load_round_trip:
  assumes "save_trained_model lb fs now results best_model_name scaler imputer feature_names
             model_dir = (Inr saved, fs')"
  shows "\<exists>best. map_of results best_model_name = Some best
     \<and> load_trained_model fs' model_dir (Some (strftime_stamp now)) =
         Inr \<lparr>mc_model = res_model best, mc_scaler = scaler, mc_imputer = imputer,
              mc_metadata = metadata_json lb best_model_name best feature_names model_dir
                              (strftime_stamp now)\<rparr>
     \<and> subscript_str (metadata_json lb best_model_name best feature_names model_dir
                              (strftime_stamp now)) ''model_name'' = Inr (JString best_model_name)
     \<and> subscript_str (metadata_json lb best_model_name best feature_names model_dir
                              (strftime_stamp now)) ''accuracy'' = Inr (JFloat (res_accuracy best))
     \<and> subscript_str (metadata_json lb best_model_name best feature_names model_dir
                              (strftime_stamp now)) ''feature_names'' =
           Inr (JArray (map JString feature_names))"
  using save_then_load [OF assms] .

theorem save_load_round_trip_witness:
  "save_trained_model example_libs empty_fs example_now example_results ''Random Forest'' 1 0
      required_params ''saved_models'' =
     (Inr \<lparr>model_file = ''saved_models/water_quality_model_20240101_000000.pkl'',
           scaler_file = ''saved_models/scaler_20240101_000000.pkl'',
           imputer_file = ''saved_models/imputer_20240101_000000.pkl'',
           metadata_file = ''saved_models/model_metadata_20240101_000000.json'',
           results_file = ''saved_models/all_models_comparison_20240101_000000.json''\<rparr>,
      example_saved_fs)
   \<and> load_trained_model example_saved_fs ''saved_models'' (Some ''20240101_000000'') =
     Inr \<lparr>mc_model = 2, mc_scaler = 1, mc_imputer = 0, mc_metadata = example_saved_metadata\<rparr>"
proof -
  have sv: "save_trained_model example_libs empty_fs example_now example_results ''Random Forest'' 1 0
      required_params ''saved_models'' =
     (Inr \<lparr>model_file = ''saved_models/water_quality_model_20240101_000000.pkl'',
           scaler_file = ''saved_models/scaler_20240101_000000.pkl'',
           imputer_file = ''saved_models/imputer_20240101_000000.pkl'',
           metadata_file = ''saved_models/model_metadata_20240101_000000.json'',
           results_file = ''saved_models/all_models_comparison_20240101_000000.json''\<rparr>,
      example_saved_fs)"
    by (simp add: save_trained_model_def makedirs_def empty_fs_def stamp_example
        example_results_def write_file_def filename_defs metadata_json_def all_results_json_def
        example_saved_fs_def example_saved_metadata_def example_libs_def required_params_def)
  have "load_trained_model example_saved_fs ''saved_models'' (Some ''20240101_000000'') =
     Inr \<lparr>mc_model = 2, mc_scaler = 1, mc_imputer = 0, mc_metadata = example_saved_metadata\<rparr>"
    using save_load_round_trip [OF sv]
    by (simp add: example_results_def stamp_example metadata_json_def
        example_saved_metadata_def example_libs_def filename_defs)
  with sv show ?thesis
    by simp
qed

section \<open>Selecting the best model\<close>

lemma train_loop_names:
  "train_loop lb rn ms acc = Inr results \<Longrightarrow> map fst results = map fst acc @ map fst ms"
proof (induction ms arbitrary: acc)
  case Nil
  then show ?case by simp
next
  case (Cons p ms)
  obtain name m where p: "p = (name, m)" by (cases p)
  from Cons.prems show ?case
    by (auto simp: p split: sum.splits dest!: Cons.IH)
qed

lemma train_loop_finite:
  "train_loop lb rn ms acc = Inr results \<Longrightarrow> list_all finite_accuracy acc
     \<Longrightarrow> list_all finite_accuracy results"
proof (induction ms arbitrary: acc)
  case Nil
  then show ?case by simp
next
  case (Cons p ms)
  obtain name m where p: "p = (name, m)" by (cases p)
  from Cons.prems show ?case
    by (auto simp: p finite_accuracy_def split: sum.splits dest!: Cons.IH)
qed

lemma max_key_loop_max:
  assumes "max_key_loop key ys m km = Inr b" and "km = Finite a"
    and "\<forall>y \<in> set ys. \<exists>c. key y = Inr (Finite c)"
    and "key m = Inr km"
  shows "b \<in> set (m # ys) \<and> (\<exists>kb. key b = Inr (Finite kb) \<and> a \<le> kb
           \<and> (\<forall>y \<in> set ys. \<forall>c. key y = Inr (Finite c) \<longrightarrow> c \<le> kb))"
  using assms
proof (induction ys arbitrary: m km a)
  case Nil
  then show ?case by simp
next
  case (Cons y ys)
  obtain c where c: "key y = Inr (Finite c)"
    using Cons.prems(3) by auto
  show ?case
  proof (cases "c > a")
    case True
    with Cons.prems c have "max_key_loop key ys y (Finite c) = Inr b"
      by simp
    from Cons.IH [OF this refl _ c] Cons.prems(3) True c show ?thesis
      by fastforce
  next
    case False
    with Cons.prems c have "max_key_loop key ys m km = Inr b"
      by simp
    from Cons.IH [OF this Cons.prems(2) _ Cons.prems(4)] Cons.prems(3) False c show ?thesis
      by fastforce
  qed
qed

lemma py_max_key_max:
  assumes "py_max_key key xs = Inr b"
    and "\<forall>y \<in> set xs. \<exists>c. key y = Inr (Finite c)"
  shows "b \<in> set xs \<and> (\<exists>kb. key b = Inr (Finite kb)
           \<and> (\<forall>y \<in> set xs. \<forall>c. key y = Inr (Finite c) \<longrightarrow> c \<le> kb))"
proof (cases xs)
  case Nil
  with assms show ?thesis by simp
next
  case (Cons x ys)
  obtain a where a: "key x = Inr (Finite a)"
    using assms(2) Cons by auto
  with assms(1) Cons have "max_key_loop key ys x (Finite a) = Inr b"
    by simp
  from max_key_loop_max [OF this refl _ a] assms(2) Cons a show ?thesis
    by fastforce
qed


lemma accuracy_key_entry:
  assumes "distinct (map fst results)" and "e \<in> set results"
  shows "accuracy_key results (fst e) = Inr (res_accuracy (snd e))"
proof -
  have "map_of results (fst e) = Some (snd e)"
    using assms by (cases e) simp
  then show ?thesis
    by (simp add: accuracy_key_def)
qed

lemma finite_accuracyD: "finite_accuracy e \<Longrightarrow> \<exists>c. res_accuracy (snd e) = Finite c"
  by (cases "res_accuracy (snd e)") (simp_all add: finite_accuracy_def)

lemma distinct_model_names: "distinct model_names"
  by (simp add: model_names_def)

lemma models_names: "map fst (models rn) = model_names"
  by (simp add: models_def comp_def)

lemma train_loop_trained:
  "train_loop lb rn ms acc = Inr results \<Longrightarrow> \<forall>p \<in> set ms. snd p = construct rn (fst p)
     \<Longrightarrow> list_all (trained_entry lb rn) acc \<Longrightarrow> list_all (trained_entry lb rn) results"
proof (induction ms arbitrary: acc)
  case Nil
  then show ?case by simp
next
  case (Cons p ms)
  obtain name m where p: "p = (name, m)" by (cases p)
  with Cons.prems(2) have m: "m = construct rn name" by simp
  from Cons.prems(1) obtain fitted y_pred a where
    f: "fit rn m = Inr fitted" and
    y: "predict lb fitted (X_test_scaled rn) = Inr y_pred" and
    s: "accuracy_score rn (y_test rn) y_pred = Inr a" and
    r: "train_loop lb rn ms
          (acc @ [(name, \<lparr>res_model = fitted, res_accuracy = Finite a,
                            res_predictions = y_pred\<rparr>)]) = Inr results"
    by (auto simp: p split: sum.splits)
  have "trained_entry lb rn (name, \<lparr>res_model = fitted, res_accuracy = Finite a,
                            res_predictions = y_pred\<rparr>)"
    using f y s m by (simp add: trained_entry_def)
  with Cons.prems(3) have "list_all (trained_entry lb rn)
      (acc @ [(name, \<lparr>res_model = fitted, res_accuracy = Finite a,
                            res_predictions = y_pred\<rparr>)])"
    by simp
  from Cons.IH [OF r _ this] Cons.prems(2) show ?case
    by simp
qed

lemma models_constructed: "\<forall>p \<in> set (models rn). snd p = construct rn (fst p)"
  by (simp add: models_def)

text \<open>
  What holds of a run that reaches its end: the results are the seven trained candidates,
  no candidate is more accurate than the one selected, and the selected model, the scaler
  and the imputer are what loading the run's timestamp returns.
\<close>

lemma saved_when_script_ends:
  assumes "train_script lb rn fs = (Inr (best_model_name, results, saved), fs')"
  shows "map fst results = model_names \<and> list_all (trained_entry lb rn) results
    \<and> (\<exists>best a. map_of results best_model_name = Some best \<and> res_accuracy best = Finite a
         \<and> (\<forall>e \<in> set results. \<exists>c. res_accuracy (snd e) = Finite c \<and> c \<le> a)
         \<and> load_trained_model fs' ''saved_models'' (Some (strftime_stamp (run_now rn))) =
             Inr \<lparr>mc_model = res_model best, mc_scaler = run_scaler rn,
                  mc_imputer = run_imputer rn,
                  mc_metadata = metadata_json lb best_model_name best (X_columns rn)
                                  ''saved_models'' (strftime_stamp (run_now rn))\<rparr>)"
proof -
  from assms obtain best where
    tl: "train_loop lb rn (models rn) [] = Inr results" and
    mx: "py_max_key (accuracy_key results) (map fst results) = Inr best_model_name" and
    best: "map_of results best_model_name = Some best" and
    sv: "save_trained_model lb fs (run_now rn) results best_model_name (run_scaler rn)
           (run_imputer rn) (X_columns rn) ''saved_models'' = (Inr saved, fs')"
    by (auto simp: train_script_def split: sum.splits option.splits prod.splits)
  have names: "map fst results = model_names"
    using train_loop_names [OF tl] by (simp add: models_names)
  then have dist: "distinct (map fst results)"
    by (simp add: distinct_model_names)
  have fin: "list_all finite_accuracy results"
    using train_loop_finite [OF tl] by simp
  have trained: "list_all (trained_entry lb rn) results"
    using train_loop_trained [OF tl] by (simp add: models_constructed)
  have key: "accuracy_key results (fst e) = Inr (res_accuracy (snd e))
      \<and> (\<exists>c. res_accuracy (snd e) = Finite c)" if "e \<in> set results" for e
    using accuracy_key_entry [OF dist that] fin that finite_accuracyD [of e]
    by (auto simp: list_all_iff)
  have "\<forall>y \<in> set (map fst results). \<exists>c. accuracy_key results y = Inr (Finite c)"
    using key by fastforce
  from py_max_key_max [OF mx this] obtain kb where
    kb: "accuracy_key results best_model_name = Inr (Finite kb)" and
    le: "\<forall>y \<in> set (map fst results). \<forall>c. accuracy_key results y = Inr (Finite c) \<longrightarrow> c \<le> kb"
    by blast
  have acc: "res_accuracy best = Finite kb"
    using kb best by (simp add: accuracy_key_def)
  have all: "\<forall>e \<in> set results. \<exists>c. res_accuracy (snd e) = Finite c \<and> c \<le> kb"
  proof
    fix e assume e: "e \<in> set results"
    from key [OF e] obtain c where c: "res_accuracy (snd e) = Finite c"
      and k: "accuracy_key results (fst e) = Inr (Finite c)"
      by auto
    from e have "fst e \<in> set (map fst results)" by simp
    with le k have "c \<le> kb" by blast
    with c show "\<exists>c. res_accuracy (snd e) = Finite c \<and> c \<le> kb" by simp
  qed
  from save_then_load [OF sv] best have
    "load_trained_model fs' ''saved_models'' (Some (strftime_stamp (run_now rn))) =
             Inr \<lparr>mc_model = res_model best, mc_scaler = run_scaler rn,
                  mc_imputer = run_imputer rn,
                  mc_metadata = metadata_json lb best_model_name best (X_columns rn)
                                  ''saved_models'' (strftime_stamp (run_now rn))\<rparr>"
    by auto
  with names trained best acc all show ?thesis
    by blast
qed

lemma train_example:
  "train_loop example_libs example_run (models example_run) [] = Inr example_trained_results"
  by (simp add: models_def model_names_def example_run_def example_libs_def
      example_trained_results_def wrong_entry_def)

lemma example_run_saves_decision_tree:
  "fst (train_script example_libs example_run empty_fs) =
     Inr (''Decision Tree'', example_trained_results, example_saved_names)
   \<and> map fst example_trained_results = model_names
   \<and> load_trained_model (snd (train_script example_libs example_run empty_fs)) ''saved_models''
        (Some ''20240101_000000'') =
      Inr \<lparr>mc_model = 4, mc_scaler = 1, mc_imputer = 0,
           mc_metadata = metadata_json example_libs ''Decision Tree''
              \<lparr>res_model = 4, res_accuracy = Finite 1, res_predictions = [0]\<rparr>
              required_params ''saved_models'' ''20240101_000000''\<rparr>"
proof -
  have mx: "py_max_key (accuracy_key example_trained_results) (map fst example_trained_results)
      = Inr ''Decision Tree''"
    by (simp add: example_trained_results_def accuracy_key_def wrong_entry_def)
  have ex: "train_predict_water_quality example_libs (Suc 0) 4 example_sample =
      Inr (0, [Finite (1/4), Finite (3/4)])"
    by (simp add: train_predict_water_quality_def example_libs_def index_py_def)
  have b: "map_of example_trained_results ''Decision Tree'' =
      Some \<lparr>res_model = 4, res_accuracy = Finite 1, res_predictions = [0]\<rparr>"
    by (simp add: example_trained_results_def)
  have sv: "fst (save_trained_model example_libs empty_fs example_now example_trained_results
       ''Decision Tree'' 1 0 required_params ''saved_models'') = Inr example_saved_names"
    by (simp add: save_trained_model_def makedirs_def empty_fs_def stamp_example b
        filename_defs example_saved_names_def Let_def)
  have run: "run_scaler example_run = 1" "run_imputer example_run = 0"
      "X_columns example_run = required_params" "run_now example_run = example_now"
    by (simp_all add: example_run_def)
  have f: "fst (train_script example_libs example_run empty_fs) =
     Inr (''Decision Tree'', example_trained_results, example_saved_names)"
    using sv by (simp add: train_script_def train_example mx b run ex split_beta)
  then have "train_script example_libs example_run empty_fs =
     (Inr (''Decision Tree'', example_trained_results, example_saved_names),
      snd (train_script example_libs example_run empty_fs))"
    by (metis prod.collapse)
  from saved_when_script_ends [OF this] b show ?thesis
    by (simp add: f run stamp_example)
qed

text \<open>
  The example prediction between the selection and the saving calls \<open>predict_proba\<close> on
  the selected model outside any \<open>try\<close>: when that call raises, the script ends there and
  the file system is as it was.
\<close>

lemma best_without_proba_saves_nothing:
  assumes "train_loop lb rn (models rn) [] = Inr results"
    and "py_max_key (accuracy_key results) (map fst results) = Inr best_model_name"
    and "map_of results best_model_name = Some best"
    and "transform lb (run_scaler rn) (NdArray [input_row example_sample]) = Inr input_scaled"
    and "predict lb (res_model best) input_scaled = Inr predicted"
    and "predict_proba lb (res_model best) input_scaled = Inl e"
  shows "train_script lb rn fs = (Inl e, fs)"
  using assms by (simp add: train_script_def train_predict_water_quality_def)

text \<open>
  C8: the training script selects the candidate of greatest test accuracy and
  \<open>save_trained_model\<close> persists this model with the fitted scaler and imputer. On a run
  where the SVM, built without \<open>predict_proba\<close>, is the most accurate of the seven, the
  script selects it and ends with AttributeError in its example prediction: nothing is
  saved.
\<close>

theorem svm_best_saves_nothing:
  "train_loop example_libs svm_run (models svm_run) [] = Inr svm_results
   \<and> py_max_key (accuracy_key svm_results) (map fst svm_results) = Inr ''SVM''
   \<and> train_script example_libs svm_run empty_fs =
       (Inl (Exc AttributeError ''This SVC has no attribute predict_proba''), empty_fs)"
proof -
  have tl: "train_loop example_libs svm_run (models svm_run) [] = Inr svm_results"
    by (simp add: models_def model_names_def svm_run_def example_run_def example_libs_def
        svm_results_def missed_entry_def)
  have mx: "py_max_key (accuracy_key svm_results) (map fst svm_results) = Inr ''SVM''"
    by (simp add: svm_results_def accuracy_key_def missed_entry_def)
  have b: "map_of svm_results ''SVM'' =
      Some \<lparr>res_model = 3, res_accuracy = Finite 1, res_predictions = [1]\<rparr>"
    by (simp add: svm_results_def)
  have "train_script example_libs svm_run empty_fs =
       (Inl (Exc AttributeError ''This SVC has no attribute predict_proba''), empty_fs)"
    by (rule best_without_proba_saves_nothing [OF tl mx b])
      (simp_all add: svm_run_def example_run_def example_libs_def)
  with tl mx show ?thesis
    by simp
qed

section \<open>Loading the most recent model\<close>











































end
